theory Spec2Isabelle
  imports Main
begin

section \<open>Timestamps and their renderings\<close>

text \<open>
  The \<open>Timestamp\<close> of a console response is a Python \<open>datetime\<close>. boto3 parses the
  ISO-8601 instant of the EC2 answer (which ends in \<open>Z\<close>) into an aware datetime in UTC, so
  the offset is fixed and two timestamps are equal exactly when their fields are.
\<close>

record datetime =
  year :: nat
  month :: nat
  day :: nat
  hour :: nat
  minute :: nat
  second :: nat
  microsecond :: nat

text \<open>The class invariant of Python's \<open>datetime\<close> (days per month left aside).\<close>

definition valid_datetime :: "datetime \<Rightarrow> bool" where
  "valid_datetime t \<longleftrightarrow>
     1 \<le> year t \<and> year t \<le> 9999 \<and> 1 \<le> month t \<and> month t \<le> 12 \<and>
     1 \<le> day t \<and> day t \<le> 31 \<and> hour t < 24 \<and> minute t < 60 \<and> second t < 60 \<and>
     microsecond t < 1000000"

definition digit_char :: "nat \<Rightarrow> char" where
  "digit_char d = ''0123456789'' ! d"

text \<open>Python's \<open>%d\<close> of a non-negative integer.\<close>

fun dec :: "nat \<Rightarrow> string" where
  "dec n = (if n < 10 then [digit_char n] else dec (n div 10) @ [digit_char (n mod 10)])"

declare dec.simps [simp del]

text \<open>The zero padding of \<open>%04d\<close>, \<open>%02d\<close>, \<open>%06d\<close>: a longer text is left as it is.\<close>

definition zfill :: "nat \<Rightarrow> string \<Rightarrow> string" where
  "zfill w s = replicate (w - length s) (CHR ''0'') @ s"

text \<open>\<open>str(i)\<close> of a Python int.\<close>

definition str_int :: "int \<Rightarrow> string" where
  "str_int i = (if i < 0 then ''-'' @ dec (nat (- i)) else dec (nat i))"

text \<open>
  \<open>str(timestamp)\<close>, which the f-strings call: \<open>isoformat(sep=' ')\<close>, that is
  \<open>%04d-%02d-%02d %02d:%02d:%02d\<close>, then \<open>.%06d\<close> when the microsecond is not zero, then the
  UTC offset \<open>+00:00\<close>.
\<close>

definition str_datetime :: "datetime \<Rightarrow> string" where
  "str_datetime t =
     zfill 4 (dec (year t)) @ ''-'' @ zfill 2 (dec (month t)) @ ''-'' @ zfill 2 (dec (day t))
     @ '' '' @ zfill 2 (dec (hour t)) @ '':'' @ zfill 2 (dec (minute t)) @ '':''
     @ zfill 2 (dec (second t))
     @ (if microsecond t \<noteq> 0 then ''.'' @ zfill 6 (dec (microsecond t)) else [])
     @ ''+00:00''"

text \<open>
  \<open>timestamp.strftime('%Y-%m-%dT%H%M%S')\<close>. The C library writes \<open>%Y\<close> without padding
  (\<open>999\<close> for the year 999) and the other fields with two digits.
\<close>

definition strftime :: "datetime \<Rightarrow> string" where
  "strftime t =
     dec (year t) @ ''-'' @ zfill 2 (dec (month t)) @ ''-'' @ zfill 2 (dec (day t))
     @ ''T'' @ zfill 2 (dec (hour t)) @ zfill 2 (dec (minute t)) @ zfill 2 (dec (second t))"

section \<open>Collaborators, events and program state\<close>

text \<open>An exception is kept as its message, the text that \<open>{e}\<close> renders.\<close>

type_synonym exn = string

text \<open>
  The answer of \<open>get_console_output\<close>: \<open>Timestamp\<close> is always there, \<open>Output\<close> only when the
  platform has console data.
\<close>

record response =
  Timestamp :: datetime
  Output :: "string option"

datatype level = DEBUG | INFO | WARNING | ERROR

text \<open>
  Everything the program does to the outside, in order: a record the logger emits, a call
  to a collaborator with its arguments and its outcome, a text written to standard output, a
  completed sleep.
\<close>

datatype event =
    Log level string
  | DescribeInstances string "exn + string list list"
  | GetConsoleOutput string "exn + response"
  | PutObject string string string "exn option"
  | Stdout string
  | FileOpen string "exn option"
  | FileWrite string string "exn option"
  | Sleep int

text \<open>
  The outside world answers each call; its answer may depend on everything that happened
  before (the events so far) and on the arguments. \<open>Inl e\<close> and \<open>Some e\<close> are an exception
  (a subclass of \<open>Exception\<close>) with message \<open>e\<close>. \<open>describe_instances\<close> answers with the
  instance ids of each reservation, \<open>open_w\<close> is \<open>open(filename, "w")\<close>, and \<open>write_file\<close> is
  the \<open>print\<close> into the open file together with its \<open>close\<close>.
\<close>

record env =
  describe_instances :: "event list \<Rightarrow> string \<Rightarrow> exn + string list list"
  get_console_output :: "event list \<Rightarrow> string \<Rightarrow> exn + response"
  put_object :: "event list \<Rightarrow> string \<Rightarrow> string \<Rightarrow> string \<Rightarrow> exn option"
  open_w :: "event list \<Rightarrow> string \<Rightarrow> exn option"
  write_file :: "event list \<Rightarrow> string \<Rightarrow> string \<Rightarrow> exn option"

text \<open>The parsed command line.\<close>

record args =
  tag :: string
  region :: string
  bucket :: string
  interval :: int
  "file" :: bool
  print :: bool
  quiet :: bool

text \<open>
  The global \<open>last_update\<close> dictionary, the events so far, and the files of the working
  directory (name to content).
\<close>

record state =
  last_update :: "string \<rightharpoonup> datetime"
  events :: "event list"
  files :: "string \<rightharpoonup> string"

text \<open>A step either goes on with a new state or ends the process with an uncaught exception.\<close>

type_synonym result = "(exn \<times> state) + state"

definition newline :: string where
  "newline = [CHR 0x0A]"

definition emit :: "event \<Rightarrow> state \<Rightarrow> state" where
  "emit e st = st\<lparr>events := events st @ [e]\<rparr>"

section \<open>Logging\<close>

definition levelno :: "level \<Rightarrow> nat" where
  "levelno l = (case l of DEBUG \<Rightarrow> 10 | INFO \<Rightarrow> 20 | WARNING \<Rightarrow> 30 | ERROR \<Rightarrow> 40)"

definition loglevel :: "args \<Rightarrow> level" where
  "loglevel a = (if quiet a then WARNING else INFO)"

text \<open>\<open>logging.info\<close>, \<open>logging.warning\<close>, \<open>logging.error\<close> on the root logger.\<close>

definition logging :: "args \<Rightarrow> level \<Rightarrow> string \<Rightarrow> state \<Rightarrow> state" where
  "logging a l msg st = (if levelno (loglevel a) \<le> levelno l then emit (Log l msg) st else st)"

section \<open>The three sinks\<close>

definition out_to_file :: "args \<Rightarrow> env \<Rightarrow> string \<Rightarrow> datetime \<Rightarrow> string \<Rightarrow> state \<Rightarrow> result" where
  "out_to_file a world instanceId timestamp output st =
     (let filename = instanceId @ ''_'' @ strftime timestamp;
          opened = open_w world (events st) filename;
          st1 = emit (FileOpen filename opened) st
      in case opened of
           Some e \<Rightarrow> Inl (e, st1)
         | None \<Rightarrow>
             (let st2 = st1\<lparr>files := (files st1)(filename \<mapsto> [])\<rparr>;
                  st3 = logging a INFO (''Writing output to file '' @ filename) st2;
                  written = write_file world (events st3) filename (output @ newline);
                  st4 = emit (FileWrite filename (output @ newline) written) st3
              in case written of
                   Some e \<Rightarrow> Inl (e, st4)
                 | None \<Rightarrow> Inr (st4\<lparr>files := (files st4)(filename \<mapsto> output @ newline)\<rparr>)))"

definition out_to_print :: "string \<Rightarrow> datetime \<Rightarrow> string \<Rightarrow> state \<Rightarrow> state" where
  "out_to_print instanceId timestamp output st =
     emit (Stdout (output @ newline))
       (emit (Stdout (''------------------------------------'' @ newline))
         (emit (Stdout (''Timestamp: '' @ str_datetime timestamp @ newline))
           (emit (Stdout (''Instance ID: '' @ instanceId @ newline))
             (emit (Stdout (''===================================='' @ newline)) st))))"

definition out_to_s3 :: "args \<Rightarrow> env \<Rightarrow> string \<Rightarrow> string \<Rightarrow> datetime \<Rightarrow> string \<Rightarrow> state \<Rightarrow> state" where
  "out_to_s3 a world bucket_name instanceId timestamp output st =
     (let key = instanceId @ ''/'' @ str_datetime timestamp;
          st1 = logging a INFO (''Writing key '' @ key @ '' to '' @ ''S3 bucket '' @ bucket_name) st;
          put = put_object world (events st1) bucket_name key output;
          st2 = emit (PutObject bucket_name key output put) st1
      in case put of
           None \<Rightarrow> st2
         | Some e \<Rightarrow>
             logging a ERROR (''Cannot put object to S3 bucket'' @ bucket_name @ '':'' @ e) st2)"

section \<open>The poll loop\<close>

text \<open>
  \<open>time.sleep\<close> of an int: a negative length raises \<open>ValueError\<close>, and a length that does
  not fit a signed 64-bit count of nanoseconds, which is how the interpreter keeps it, raises
  \<open>OverflowError\<close>.
\<close>

definition sleep_error :: "int \<Rightarrow> exn option" where
  "sleep_error secs =
     (if secs < 0 then Some ''sleep length must be non-negative''
      else if 2 ^ 63 \<le> secs * 1000000000
      then Some ''timestamp too large to convert to C _PyTime_t''
      else None)"

definition sleep :: "int \<Rightarrow> state \<Rightarrow> result" where
  "sleep secs st =
     (case sleep_error secs of
        Some e \<Rightarrow> Inl (e, st)
      | None \<Rightarrow> Inr (emit (Sleep secs) st))"

text \<open>
  The test of the \<open>if\<close> in the loop body:
  \<open>instanceId in last_update and last_update[instanceId] == timestamp\<close>.
\<close>

definition no_updates :: "(string \<rightharpoonup> datetime) \<Rightarrow> string \<Rightarrow> datetime \<Rightarrow> bool" where
  "no_updates seen instanceId timestamp \<longleftrightarrow>
     seen instanceId \<noteq> None \<and> the (seen instanceId) = timestamp"

text \<open>The body of \<open>for instance in instances\<close>.\<close>

definition process_instance :: "args \<Rightarrow> env \<Rightarrow> string \<Rightarrow> state \<Rightarrow> result" where
  "process_instance a world instanceId st =
     (let st1 = logging a INFO (''Retrieving console log for instance '' @ instanceId) st;
          fetched = get_console_output world (events st1) instanceId;
          st2 = emit (GetConsoleOutput instanceId fetched) st1
      in case fetched of
           Inl e \<Rightarrow>
             Inr (logging a ERROR (''Cannot retrieve log for instance '' @ instanceId @ '':'' @ e) st2)
         | Inr response \<Rightarrow>
             (let timestamp = Timestamp response
              in if no_updates (last_update st2) instanceId timestamp
                 then Inr (logging a INFO (''No updates since '' @ str_datetime timestamp) st2)
                 else
                   (let st3 = logging a INFO (''Console updated '' @ str_datetime timestamp) st2;
                        st4 = st3\<lparr>last_update := (last_update st3)(instanceId \<mapsto> Timestamp response)\<rparr>
                    in case Output response of
                         Some output \<Rightarrow>
                           (let st5 = out_to_s3 a world (bucket a) instanceId timestamp output st4;
                                st6 = (if print a
                                       then out_to_print instanceId timestamp output st5
                                       else st5)
                            in if file a
                               then out_to_file a world instanceId timestamp output st6
                               else Inr st6)
                       | None \<Rightarrow>
                           Inr (logging a WARNING
                                  (''No console output '' @ ''received for instance '' @ instanceId)
                                  st4))))"

fun for_instances :: "args \<Rightarrow> env \<Rightarrow> string list \<Rightarrow> state \<Rightarrow> result" where
  "for_instances a world [] st = Inr st"
| "for_instances a world (instanceId # rest) st =
     (case process_instance a world instanceId st of
        Inl crash \<Rightarrow> Inl crash
      | Inr st' \<Rightarrow> for_instances a world rest st')"

text \<open>
  \<open>for reservation in reservations\<close>. The \<open>logging.debug(instances)\<close> of the source is below
  both levels the program configures, so it emits nothing (lemma \<open>logging_DEBUG\<close>).
\<close>

fun for_reservations :: "args \<Rightarrow> env \<Rightarrow> string list list \<Rightarrow> state \<Rightarrow> result" where
  "for_reservations a world [] st = Inr st"
| "for_reservations a world (instances # rest) st =
     (case for_instances a world instances st of
        Inl crash \<Rightarrow> Inl crash
      | Inr st' \<Rightarrow> for_reservations a world rest st')"

text \<open>One turn of \<open>while True\<close>.\<close>

definition poll_cycle :: "args \<Rightarrow> env \<Rightarrow> state \<Rightarrow> result" where
  "poll_cycle a world st =
     (let st1 = logging a INFO ''Retrieving instances'' st;
          listed = describe_instances world (events st1) (tag a);
          st2 = emit (DescribeInstances (tag a) listed) st1
      in case listed of
           Inl e \<Rightarrow> sleep (interval a) (logging a ERROR (''Cannot list instances: '' @ e) st2)
         | Inr reservations \<Rightarrow>
             (case for_reservations a world reservations st2 of
                Inl crash \<Rightarrow> Inl crash
              | Inr st3 \<Rightarrow>
                  sleep (interval a)
                    (logging a INFO
                       (''Sleeping for '' @ str_int (interval a) @ '' seconds, ''
                        @ ''press Ctrl+C to interrupt...'') st3)))"

text \<open>
  \<open>while True\<close> never returns: \<open>run n\<close> is the state after \<open>n\<close> whole turns, or the uncaught
  exception that ended the process before.
\<close>

fun run :: "nat \<Rightarrow> args \<Rightarrow> env \<Rightarrow> state \<Rightarrow> result" where
  "run 0 a world st = Inr st"
| "run (Suc n) a world st =
     (case poll_cycle a world st of
        Inl crash \<Rightarrow> Inl crash
      | Inr st' \<Rightarrow> run n a world st')"

text \<open>The state at start-up: \<open>last_update = {}\<close>, nothing done yet, the files that exist.\<close>

definition startup :: "(string \<rightharpoonup> string) \<Rightarrow> state" where
  "startup fs = \<lparr>last_update = Map.empty, events = [], files = fs\<rparr>"

section \<open>Reading a run\<close>

text \<open>The state a step ends in, whether the process goes on or not.\<close>

definition final :: "result \<Rightarrow> state" where
  "final r = (case r of Inl (e, st) \<Rightarrow> st | Inr st \<Rightarrow> st)"

text \<open>The uncaught exception that ended the process, if one did.\<close>

definition crashed :: "result \<Rightarrow> exn option" where
  "crashed r = (case r of Inl (e, st) \<Rightarrow> Some e | Inr st \<Rightarrow> None)"

text \<open>The events that happened between two states of one run.\<close>

definition since :: "state \<Rightarrow> state \<Rightarrow> event list" where
  "since st st' = drop (length (events st)) (events st')"

text \<open>What each collaborator answers when the program, in state \<open>st\<close>, calls it next.\<close>

definition listed :: "args \<Rightarrow> env \<Rightarrow> state \<Rightarrow> exn + string list list" where
  "listed a world st =
     describe_instances world (events (logging a INFO ''Retrieving instances'' st)) (tag a)"

definition fetched :: "args \<Rightarrow> env \<Rightarrow> string \<Rightarrow> state \<Rightarrow> exn + response" where
  "fetched a world instanceId st =
     get_console_output world
       (events (logging a INFO (''Retrieving console log for instance '' @ instanceId) st))
       instanceId"

text \<open>The state of a turn once the instances are listed, where the loops start.\<close>

definition listing_done :: "args \<Rightarrow> env \<Rightarrow> state \<Rightarrow> state" where
  "listing_done a world st =
     emit (DescribeInstances (tag a) (listed a world st))
       (logging a INFO ''Retrieving instances'' st)"

text \<open>A delivery is a call that hands console output to a sink.\<close>

fun is_delivery :: "event \<Rightarrow> bool" where
  "is_delivery (PutObject b k body r) = True"
| "is_delivery (Stdout text) = True"
| "is_delivery (FileOpen f r) = True"
| "is_delivery (FileWrite f text r) = True"
| "is_delivery e = False"

fun is_put :: "event \<Rightarrow> bool" where
  "is_put (PutObject b k body r) = True"
| "is_put e = False"

fun is_fetch :: "event \<Rightarrow> bool" where
  "is_fetch (GetConsoleOutput i r) = True"
| "is_fetch e = False"

fun is_sleep :: "event \<Rightarrow> bool" where
  "is_sleep (Sleep secs) = True"
| "is_sleep e = False"

text \<open>The instances whose console was fetched, in the order of the fetches.\<close>

fun fetch_id :: "event \<Rightarrow> string option" where
  "fetch_id (GetConsoleOutput i r) = Some i"
| "fetch_id e = None"

definition fetched_ids :: "event list \<Rightarrow> string list" where
  "fetched_ids es = List.map_filter fetch_id es"

fun put_key :: "event \<Rightarrow> string option" where
  "put_key (PutObject b k body r) = Some k"
| "put_key e = None"

text \<open>An archive write under the key given, or a file call on the file name given.\<close>

fun names_sink :: "string \<Rightarrow> string \<Rightarrow> event \<Rightarrow> bool" where
  "names_sink key name (PutObject b k body r) = (k = key)"
| "names_sink key name (FileOpen f r) = (f = name)"
| "names_sink key name (FileWrite f text r) = (f = name)"
| "names_sink key name e = False"

text \<open>
  The objects the archive store holds after some events: a successful \<open>put_object\<close> stores
  the body under its bucket and key, in place of an object that was there.
\<close>

fun store :: "event \<Rightarrow> (string \<times> string \<rightharpoonup> string) \<Rightarrow> (string \<times> string \<rightharpoonup> string)" where
  "store (PutObject b k body None) objects = objects((b, k) \<mapsto> body)"
| "store e objects = objects"

definition archive :: "event list \<Rightarrow> (string \<times> string \<rightharpoonup> string)" where
  "archive es = foldl (\<lambda>objects e. store e objects) Map.empty es"

text \<open>
  Between \<open>s\<close> and \<open>s'\<close> of one run, none of the events that \<open>P\<close> selects happened, and
  \<open>s'\<close> has \<open>t\<close> recorded for the instance \<open>i\<close>.
\<close>

definition quiet_for :: "(event \<Rightarrow> bool) \<Rightarrow> string \<Rightarrow> datetime \<Rightarrow> state \<Rightarrow> state \<Rightarrow> bool" where
  "quiet_for P i t s s' \<longleftrightarrow>
     last_update s' i = Some t \<and> (\<exists>new. events s' = events s @ new \<and> filter P new = [])"

text \<open>The events of one logging call, of one archive write, one print block, one file write.\<close>

definition log_events :: "args \<Rightarrow> level \<Rightarrow> string \<Rightarrow> event list" where
  "log_events a l msg = (if levelno (loglevel a) \<le> levelno l then [Log l msg] else [])"

definition s3_events :: "args \<Rightarrow> string \<Rightarrow> string \<Rightarrow> datetime \<Rightarrow> string \<Rightarrow> exn option \<Rightarrow> event list" where
  "s3_events a b i t out r =
     log_events a INFO (''Writing key '' @ i @ ''/'' @ str_datetime t @ '' to S3 bucket '' @ b)
     @ [PutObject b (i @ ''/'' @ str_datetime t) out r]
     @ (case r of
          None \<Rightarrow> []
        | Some e \<Rightarrow> [Log ERROR (''Cannot put object to S3 bucket'' @ b @ '':'' @ e)])"

definition print_events :: "string \<Rightarrow> datetime \<Rightarrow> string \<Rightarrow> event list" where
  "print_events i t out =
     [Stdout (''===================================='' @ newline),
      Stdout (''Instance ID: '' @ i @ newline),
      Stdout (''Timestamp: '' @ str_datetime t @ newline),
      Stdout (''------------------------------------'' @ newline),
      Stdout (out @ newline)]"

definition file_events :: "args \<Rightarrow> string \<Rightarrow> datetime \<Rightarrow> string \<Rightarrow> exn option \<Rightarrow> exn option \<Rightarrow> event list" where
  "file_events a i t out opened written =
     FileOpen (i @ ''_'' @ strftime t) opened
     # (case opened of
          Some e \<Rightarrow> []
        | None \<Rightarrow>
            log_events a INFO (''Writing output to file '' @ i @ ''_'' @ strftime t)
            @ [FileWrite (i @ ''_'' @ strftime t) (out @ newline) written])"

text \<open>The calls of one file write alone, without the logging.\<close>

definition file_calls :: "string \<Rightarrow> datetime \<Rightarrow> string \<Rightarrow> exn option \<Rightarrow> exn option \<Rightarrow> event list" where
  "file_calls i t out opened written =
     FileOpen (i @ ''_'' @ strftime t) opened
     # (case opened of
          Some e \<Rightarrow> []
        | None \<Rightarrow> [FileWrite (i @ ''_'' @ strftime t) (out @ newline) written])"

text \<open>The events of a snapshot's fetch, up to the point where the sinks are called.\<close>

definition fetch_events :: "args \<Rightarrow> string \<Rightarrow> response \<Rightarrow> event list" where
  "fetch_events a i r =
     log_events a INFO (''Retrieving console log for instance '' @ i)
     @ [GetConsoleOutput i (Inr r)]
     @ log_events a INFO (''Console updated '' @ str_datetime (Timestamp r))"

text \<open>
  What \<open>out_to_file\<close> comes to, given how the open and the write turn out, and what the
  loop body comes to for a snapshot \<open>r\<close> with output \<open>out\<close> whose timestamp is not the
  recorded one, given in addition how the archive write turns out.
\<close>

definition file_result :: "args \<Rightarrow> string \<Rightarrow> datetime \<Rightarrow> string \<Rightarrow> exn option \<Rightarrow> exn option \<Rightarrow> state \<Rightarrow> result" where
  "file_result a i t out opened written st =
     (case opened of
        Some e \<Rightarrow> Inl (e, st\<lparr>events := events st @ file_events a i t out opened written\<rparr>)
      | None \<Rightarrow>
          (case written of
             Some e \<Rightarrow>
               Inl (e, st\<lparr>events := events st @ file_events a i t out opened written,
                          files := (files st)(i @ ''_'' @ strftime t \<mapsto> [])\<rparr>)
           | None \<Rightarrow>
               Inr (st\<lparr>events := events st @ file_events a i t out opened written,
                       files := (files st)(i @ ''_'' @ strftime t \<mapsto> out @ newline)\<rparr>)))"

definition delivered :: "args \<Rightarrow> string \<Rightarrow> response \<Rightarrow> string \<Rightarrow> exn option \<Rightarrow> exn option \<Rightarrow> exn option \<Rightarrow> state \<Rightarrow> result" where
  "delivered a i r out put opened written st =
     (let st6 = st\<lparr>last_update := (last_update st)(i \<mapsto> Timestamp r),
                    events := events st @ fetch_events a i r
                      @ s3_events a (bucket a) i (Timestamp r) out put
                      @ (if print a then print_events i (Timestamp r) out else [])\<rparr>
      in if file a then file_result a i (Timestamp r) out opened written st6 else Inr st6)"

section \<open>Reading a rendered timestamp back\<close>

definition is_digit :: "char \<Rightarrow> bool" where
  "is_digit c \<longleftrightarrow> c \<in> set ''0123456789''"

text \<open>The value of a digit is its distance from the character \<open>0\<close>.\<close>

definition digit_val :: "char \<Rightarrow> nat" where
  "digit_val c = of_char c - of_char (CHR ''0'')"

definition undec :: "string \<Rightarrow> nat" where
  "undec s = foldl (\<lambda>n c. 10 * n + digit_val c) 0 s"

text \<open>
  The pattern \<open>YYYY-MM-DDTHHMMSS\<close> of the specification, for a timestamp \<open>t\<close>: seventeen
  characters, digits but for the two hyphens and the \<open>T\<close>, and each group of digits reads as
  the field of \<open>t\<close> it stands for.
\<close>

definition YYYY_MM_DDTHHMMSS :: "datetime \<Rightarrow> string \<Rightarrow> bool" where
  "YYYY_MM_DDTHHMMSS t s \<longleftrightarrow>
     map is_digit s =
       [True, True, True, True, False, True, True, False, True, True, False,
        True, True, True, True, True, True]
     \<and> s ! 4 = CHR ''-'' \<and> s ! 7 = CHR ''-'' \<and> s ! 10 = CHR ''T''
     \<and> undec (take 4 s) = year t \<and> undec (take 2 (drop 5 s)) = month t
     \<and> undec (take 2 (drop 8 s)) = day t \<and> undec (take 2 (drop 11 s)) = hour t
     \<and> undec (take 2 (drop 13 s)) = minute t \<and> undec (take 2 (drop 15 s)) = second t"

section \<open>Example command lines, timestamps and worlds\<close>

definition T1 :: datetime where
  "T1 = \<lparr>year = 2024, month = 3, day = 5, hour = 7, minute = 8, second = 9, microsecond = 0\<rparr>"

text \<open>An earlier moment than \<open>T1\<close>.\<close>

definition T0 :: datetime where
  "T0 = \<lparr>year = 2023, month = 12, day = 31, hour = 23, minute = 59, second = 59,
          microsecond = 0\<rparr>"

text \<open>Two snapshots with output; the second carries the earlier timestamp.\<close>

definition log_A :: response where
  "log_A = \<lparr>Timestamp = T1, Output = Some ''panic log A''\<rparr>"

definition log_B :: response where
  "log_B = \<lparr>Timestamp = T0, Output = Some ''panic log B''\<rparr>"

definition cmdline :: "int \<Rightarrow> bool \<Rightarrow> bool \<Rightarrow> args" where
  "cmdline secs f p =
     \<lparr>tag = ''monitor'', region = ''eu-west-1'', bucket = ''console-logs'', interval = secs,
      file = f, print = p, quiet = False\<rparr>"

text \<open>A world whose answers never change.\<close>

definition steady :: "exn + string list list \<Rightarrow> exn + response \<Rightarrow> exn option \<Rightarrow> exn option \<Rightarrow> exn option \<Rightarrow> env" where
  "steady insts snapshot put opened written =
     \<lparr>describe_instances = (\<lambda>h t. insts),
      get_console_output = (\<lambda>h i. snapshot),
      put_object = (\<lambda>h b k body. put),
      open_w = (\<lambda>h f. opened),
      write_file = (\<lambda>h f text. written)\<rparr>"

text \<open>
  A world with one instance \<open>i-001\<close> whose console answers follow a script: the first fetch
  gets \<open>first\<close>, every later one \<open>later\<close>. Archive and files work.
\<close>

definition scripted :: "response \<Rightarrow> response \<Rightarrow> env" where
  "scripted first later =
     \<lparr>describe_instances = (\<lambda>h t. Inr [[''i-001'']]),
      get_console_output = (\<lambda>h i. if list_ex is_fetch h then Inr later else Inr first),
      put_object = (\<lambda>h b k body. None),
      open_w = (\<lambda>h f. None),
      write_file = (\<lambda>h f text. None)\<rparr>"

text \<open>
  A world with two instances in one reservation and a third in the next, where the console
  of \<open>i-001\<close> cannot be fetched and the others answer \<open>log_A\<close>.
\<close>

definition flaky :: env where
  "flaky =
     \<lparr>describe_instances = (\<lambda>h t. Inr [[''i-001'', ''i-002''], [''i-003'']]),
      get_console_output = (\<lambda>h i. if i = ''i-001'' then Inl ''timed out'' else Inr log_A),
      put_object = (\<lambda>h b k body. None),
      open_w = (\<lambda>h f. None),
      write_file = (\<lambda>h f text. None)\<rparr>"

definition no_files :: "string \<rightharpoonup> string" where
  "no_files = Map.empty"

text \<open>The state in which the loops of the second turn start, in a run from start-up.\<close>

definition second_turn :: "args \<Rightarrow> env \<Rightarrow> state" where
  "second_turn a world = listing_done a world (final (poll_cycle a world (startup no_files)))"

section \<open>Logging and the sinks, event by event\<close>

lemma logging_events: "logging a l msg st = st\<lparr>events := events st @ log_events a l msg\<rparr>"
  by (simp add: logging_def log_events_def emit_def)

lemma log_events_ERROR: "log_events a ERROR msg = [Log ERROR msg]"
  by (simp add: log_events_def levelno_def loglevel_def)

lemma log_events_WARNING: "log_events a WARNING msg = [Log WARNING msg]"
  by (simp add: log_events_def levelno_def loglevel_def)

lemma logging_DEBUG: "logging a DEBUG msg st = st"
  by (simp add: logging_def levelno_def loglevel_def)

lemma no_updates_iff: "no_updates seen i t \<longleftrightarrow> seen i = Some t"
  by (auto simp: no_updates_def)

lemma out_to_print_events:
  "out_to_print i t out st = st\<lparr>events := events st @ print_events i t out\<rparr>"
  by (simp add: out_to_print_def emit_def print_events_def)

lemma out_to_s3_events:
  "\<exists>put. out_to_s3 a world b i t out st = st\<lparr>events := events st @ s3_events a b i t out put\<rparr>"
proof -
  let ?put = "put_object world
     (events (logging a INFO
        (''Writing key '' @ (i @ ''/'' @ str_datetime t) @ '' to '' @ ''S3 bucket '' @ b) st))
     b (i @ ''/'' @ str_datetime t) out"
  have "out_to_s3 a world b i t out st = st\<lparr>events := events st @ s3_events a b i t out ?put\<rparr>"
    by (cases ?put)
      (simp_all add: out_to_s3_def logging_events emit_def log_events_ERROR Let_def s3_events_def)
  then show ?thesis ..
qed

lemma out_to_file_result:
  "\<exists>opened written. out_to_file a world i t out st = file_result a i t out opened written st"
proof -
  let ?f = "i @ ''_'' @ strftime t"
  let ?o = "open_w world (events st) ?f"
  let ?w = "write_file world
     (events st @ [FileOpen ?f None] @ log_events a INFO (''Writing output to file '' @ ?f))
     ?f (out @ newline)"
  have "out_to_file a world i t out st = file_result a i t out ?o ?w st"
  proof (cases ?o)
    case (Some e)
    then show ?thesis
      by (simp add: out_to_file_def emit_def Let_def file_events_def file_result_def)
  next
    case None
    then show ?thesis
      by (cases ?w)
        (simp_all add: out_to_file_def emit_def Let_def file_events_def logging_events
          file_result_def)
  qed
  then show ?thesis by blast
qed

section \<open>The loop body, branch by branch\<close>

lemma process_instance_fetch_failed:
  assumes "fetched a world i st = Inl e"
  shows "process_instance a world i st =
           Inr (st\<lparr>events := events st
                @ log_events a INFO (''Retrieving console log for instance '' @ i)
                @ [GetConsoleOutput i (Inl e),
                   Log ERROR (''Cannot retrieve log for instance '' @ i @ '':'' @ e)]\<rparr>)"
  using assms
  by (simp add: process_instance_def fetched_def logging_events emit_def log_events_ERROR Let_def)

lemma process_instance_no_updates:
  assumes "fetched a world i st = Inr r" and "last_update st i = Some (Timestamp r)"
  shows "process_instance a world i st =
           Inr (st\<lparr>events := events st
                @ log_events a INFO (''Retrieving console log for instance '' @ i)
                @ [GetConsoleOutput i (Inr r)]
                @ log_events a INFO (''No updates since '' @ str_datetime (Timestamp r))\<rparr>)"
  using assms
  by (simp add: process_instance_def fetched_def logging_events emit_def no_updates_iff Let_def)

lemma process_instance_no_output:
  assumes "fetched a world i st = Inr r" and "last_update st i \<noteq> Some (Timestamp r)"
    and "Output r = None"
  shows "process_instance a world i st =
           Inr (st\<lparr>last_update := (last_update st)(i \<mapsto> Timestamp r),
                   events := events st @ fetch_events a i r
                     @ [Log WARNING (''No console output received for instance '' @ i)]\<rparr>)"
  using assms
  by (simp add: process_instance_def fetched_def logging_events emit_def no_updates_iff Let_def
      log_events_WARNING fetch_events_def)

lemma process_instance_delivered:
  assumes "fetched a world i st = Inr r" and "last_update st i \<noteq> Some (Timestamp r)"
    and "Output r = Some out"
  shows "\<exists>put opened written.
           process_instance a world i st = delivered a i r out put opened written st"
proof -
  let ?st4 = "st\<lparr>events := events st @ fetch_events a i r,
                   last_update := (last_update st)(i \<mapsto> Timestamp r)\<rparr>"
  obtain put where put:
    "out_to_s3 a world (bucket a) i (Timestamp r) out ?st4
       = ?st4\<lparr>events := events ?st4 @ s3_events a (bucket a) i (Timestamp r) out put\<rparr>"
    using out_to_s3_events by blast
  let ?st5 = "?st4\<lparr>events := events ?st4 @ s3_events a (bucket a) i (Timestamp r) out put\<rparr>"
  let ?st6 = "if print a then out_to_print i (Timestamp r) out ?st5 else ?st5"
  obtain opened written where outf:
    "out_to_file a world i (Timestamp r) out ?st6
       = file_result a i (Timestamp r) out opened written ?st6"
    using out_to_file_result by blast
  have step: "process_instance a world i st =
      (if file a then out_to_file a world i (Timestamp r) out ?st6 else Inr ?st6)"
    using assms put
    by (simp add: process_instance_def fetched_def logging_events emit_def no_updates_iff
        Let_def fetch_events_def)
  have "process_instance a world i st = delivered a i r out put opened written st"
    unfolding step outf
    by (simp add: delivered_def out_to_print_events Let_def)
  then show ?thesis by blast
qed

section \<open>What a delivery leaves behind\<close>

lemma since_append: "events st' = events st @ new \<Longrightarrow> since st st' = new"
  by (simp add: since_def)

lemma deliveries_log_events: "filter is_delivery (log_events a l msg) = []"
  by (simp add: log_events_def)

lemma deliveries_fetch_events: "filter is_delivery (fetch_events a i r) = []"
  by (simp add: fetch_events_def deliveries_log_events)

lemma deliveries_s3_events:
  "filter is_delivery (s3_events a b i t out put) = [PutObject b (i @ ''/'' @ str_datetime t) out put]"
  by (cases put) (simp_all add: s3_events_def deliveries_log_events)

lemma deliveries_print_events: "filter is_delivery (print_events i t out) = print_events i t out"
  by (simp add: print_events_def)

lemma deliveries_file_events:
  "filter is_delivery (file_events a i t out opened written) = file_calls i t out opened written"
  by (cases opened) (simp_all add: file_events_def file_calls_def deliveries_log_events)

lemma final_simps: "final (Inr st) = st" "final (Inl (e, st)) = st"
  by (simp_all add: final_def)

lemma crashed_simps: "crashed (Inr st) = None" "crashed (Inl (e, st)) = Some e"
  by (simp_all add: crashed_def)

lemma final_file_result:
  "events (final (file_result a i t out opened written st))
     = events st @ file_events a i t out opened written"
  "last_update (final (file_result a i t out opened written st)) = last_update st"
  by (cases opened; cases written; simp add: file_result_def final_def)+

lemma files_file_result:
  "files (final (file_result a i t out opened written st)) =
     (case opened of
        Some e \<Rightarrow> files st
      | None \<Rightarrow> (files st)(i @ ''_'' @ strftime t \<mapsto>
                   (case written of None \<Rightarrow> out @ newline | Some e \<Rightarrow> [])))"
  by (cases opened; cases written; simp add: file_result_def final_def)

lemma crashed_file_result:
  "crashed (file_result a i t out opened written st) =
     (case opened of Some e \<Rightarrow> Some e | None \<Rightarrow> written)"
  by (cases opened; cases written; simp add: file_result_def crashed_def)

lemma result_cases: "r = (case crashed r of Some e \<Rightarrow> Inl (e, final r) | None \<Rightarrow> Inr (final r))"
  by (cases r) (auto simp: crashed_def final_def)

lemma events_delivered:
  "events (final (delivered a i r out put opened written st)) =
     events st @ fetch_events a i r @ s3_events a (bucket a) i (Timestamp r) out put
       @ (if print a then print_events i (Timestamp r) out else [])
       @ (if file a then file_events a i (Timestamp r) out opened written else [])"
  by (simp add: delivered_def Let_def final_file_result final_simps)

lemma last_update_delivered:
  "last_update (final (delivered a i r out put opened written st))
     = (last_update st)(i \<mapsto> Timestamp r)"
  by (simp add: delivered_def Let_def final_file_result final_simps)

lemma crashed_delivered:
  "crashed (delivered a i r out put opened written st) =
     (if file a then (case opened of Some e \<Rightarrow> Some e | None \<Rightarrow> written) else None)"
  by (simp add: delivered_def Let_def crashed_file_result crashed_simps)

lemma files_delivered:
  "files (final (delivered a i r out put opened written st)) =
     (if file a
      then (case opened of
              Some e \<Rightarrow> files st
            | None \<Rightarrow> (files st)(i @ ''_'' @ strftime (Timestamp r) \<mapsto>
                         (case written of None \<Rightarrow> out @ newline | Some e \<Rightarrow> [])))
      else files st)"
  by (simp add: delivered_def Let_def files_file_result final_simps split: option.split)

lemma deliveries_delivered:
  "filter is_delivery (since st (final (delivered a i r out put opened written st))) =
     PutObject (bucket a) (i @ ''/'' @ str_datetime (Timestamp r)) out put
     # (if print a then print_events i (Timestamp r) out else [])
     @ (if file a then file_calls i (Timestamp r) out opened written else [])"
  by (simp add: since_append [OF events_delivered] deliveries_fetch_events deliveries_s3_events
      deliveries_print_events deliveries_file_events)

lemma for_instances_append:
  "for_instances a world (xs @ ys) st =
     (case for_instances a world xs st of
        Inl crash \<Rightarrow> Inl crash
      | Inr st' \<Rightarrow> for_instances a world ys st')"
  by (induction xs arbitrary: st) (simp_all split: sum.split)

lemma for_reservations_append:
  "for_reservations a world (xs @ ys) st =
     (case for_reservations a world xs st of
        Inl crash \<Rightarrow> Inl crash
      | Inr st' \<Rightarrow> for_reservations a world ys st')"
  by (induction xs arbitrary: st) (simp_all split: sum.split)

lemma poll_cycle_listed:
  "poll_cycle a world st =
     (case listed a world st of
        Inl e \<Rightarrow>
          sleep (interval a)
            (logging a ERROR (''Cannot list instances: '' @ e) (listing_done a world st))
      | Inr reservations \<Rightarrow>
          (case for_reservations a world reservations (listing_done a world st) of
             Inl crash \<Rightarrow> Inl crash
           | Inr st3 \<Rightarrow>
               sleep (interval a)
                 (logging a INFO
                    (''Sleeping for '' @ str_int (interval a) @ '' seconds, ''
                     @ ''press Ctrl+C to interrupt...'') st3)))"
  unfolding poll_cycle_def listed_def listing_done_def Let_def ..

section \<open>The renderings of the examples\<close>

lemma str_datetime_T1: "str_datetime T1 = ''2024-03-05 07:08:09+00:00''"
  by (simp add: str_datetime_def T1_def zfill_def dec.simps digit_char_def)

lemma str_datetime_T0: "str_datetime T0 = ''2023-12-31 23:59:59+00:00''"
  by (simp add: str_datetime_def T0_def zfill_def dec.simps digit_char_def)

lemma strftime_T1: "strftime T1 = ''2024-03-05T070809''"
  by (simp add: strftime_def T1_def zfill_def dec.simps digit_char_def)

lemma T0_T1: "T0 \<noteq> T1"
  by (simp add: T0_def T1_def)

lemma str_int_60: "str_int 60 = ''60''"
  by (simp add: str_int_def dec.simps digit_char_def)

section \<open>A snapshot without output\<close>

text \<open>
  Claim C1, as the code has it. When the response has no \<open>Output\<close>, the loop body ends
  normally, nothing is handed to any sink and no file changes. The timestamp is tested
  first, though. When it is not the recorded one, it is recorded for this instance (the
  other entries stay) and the events are the fetch and the warning, with the informational
  records "Retrieving console log" and "Console updated" where \<open>--quiet\<close> does not hide them.
  When it is the recorded one, \<open>last_update\<close> stays as it is, no warning is logged, and the
  events are the fetch with the informational records "Retrieving console log" and
  "No updates since" where \<open>--quiet\<close> does not hide them.
\<close>

theorem no_output_delivers_nothing:
  assumes "fetched a world i st = Inr r" and "Output r = None"
  shows "\<exists>st'. process_instance a world i st = Inr st'
           \<and> filter is_delivery (since st st') = []
           \<and> files st' = files st
           \<and> (last_update st i = Some (Timestamp r) \<longrightarrow>
                last_update st' = last_update st
                \<and> since st st' =
                    log_events a INFO (''Retrieving console log for instance '' @ i)
                    @ [GetConsoleOutput i (Inr r)]
                    @ log_events a INFO (''No updates since '' @ str_datetime (Timestamp r)))
           \<and> (last_update st i \<noteq> Some (Timestamp r) \<longrightarrow>
                last_update st' = (last_update st)(i \<mapsto> Timestamp r)
                \<and> since st st' =
                    log_events a INFO (''Retrieving console log for instance '' @ i)
                    @ [GetConsoleOutput i (Inr r)]
                    @ log_events a INFO (''Console updated '' @ str_datetime (Timestamp r))
                    @ [Log WARNING (''No console output received for instance '' @ i)])
           \<and> (Log WARNING (''No console output received for instance '' @ i) \<in> set (since st st'))
               = (last_update st i \<noteq> Some (Timestamp r))"
proof (cases "last_update st i = Some (Timestamp r)")
  case True
  let ?new = "log_events a INFO (''Retrieving console log for instance '' @ i)
     @ [GetConsoleOutput i (Inr r)]
     @ log_events a INFO (''No updates since '' @ str_datetime (Timestamp r))"
  have "process_instance a world i st = Inr (st\<lparr>events := events st @ ?new\<rparr>)"
    using process_instance_no_updates [OF assms(1) True] .
  moreover have "since st (st\<lparr>events := events st @ ?new\<rparr>) = ?new"
    by (simp add: since_append)
  moreover have "filter is_delivery ?new = []"
    by (simp add: deliveries_log_events)
  moreover have "Log WARNING (''No console output received for instance '' @ i) \<notin> set ?new"
    by (simp add: log_events_def)
  ultimately show ?thesis using True by simp
next
  case False
  let ?new = "fetch_events a i r @ [Log WARNING (''No console output received for instance '' @ i)]"
  let ?st' = "st\<lparr>last_update := (last_update st)(i \<mapsto> Timestamp r), events := events st @ ?new\<rparr>"
  have "process_instance a world i st = Inr ?st'"
    using process_instance_no_output [OF assms(1) False assms(2)] by simp
  moreover have "since st ?st' = ?new"
    by (simp add: since_append)
  moreover have "filter is_delivery ?new = []"
    by (simp add: deliveries_fetch_events)
  ultimately show ?thesis using False by (simp add: fetch_events_def)
qed

theorem no_output_delivers_nothing_witness:
  "fetched (cmdline 60 True True)
      (steady (Inr [[''i-001'']]) (Inr \<lparr>Timestamp = T1, Output = None\<rparr>) None None None)
      ''i-001'' (startup no_files) = Inr \<lparr>Timestamp = T1, Output = None\<rparr>
   \<and> Output \<lparr>Timestamp = T1, Output = None\<rparr> = None
   \<and> (\<exists>st'. process_instance (cmdline 60 True True)
               (steady (Inr [[''i-001'']]) (Inr \<lparr>Timestamp = T1, Output = None\<rparr>) None None None)
               ''i-001'' (startup no_files) = Inr st'
          \<and> filter is_delivery (since (startup no_files) st') = []
          \<and> files st' = no_files
          \<and> last_update st' ''i-001'' = Some T1
          \<and> since (startup no_files) st' =
              [Log INFO ''Retrieving console log for instance i-001'',
               GetConsoleOutput ''i-001'' (Inr \<lparr>Timestamp = T1, Output = None\<rparr>),
               Log INFO ''Console updated 2024-03-05 07:08:09+00:00'',
               Log WARNING ''No console output received for instance i-001''])"
proof -
  let ?a = "cmdline 60 True True"
  let ?r = "\<lparr>Timestamp = T1, Output = None\<rparr>"
  let ?w = "steady (Inr [[''i-001'']]) (Inr ?r) None None None"
  have h1: "fetched ?a ?w ''i-001'' (startup no_files) = Inr ?r"
    by (simp add: fetched_def steady_def)
  have h2: "Output ?r = None"
    by simp
  have novel: "last_update (startup no_files) ''i-001'' \<noteq> Some (Timestamp ?r)"
    by (simp add: startup_def)
  from no_output_delivers_nothing [OF h1 h2] obtain st' where st':
    "process_instance ?a ?w ''i-001'' (startup no_files) = Inr st'"
    "filter is_delivery (since (startup no_files) st') = []"
    "files st' = files (startup no_files)"
    "last_update (startup no_files) ''i-001'' \<noteq> Some (Timestamp ?r) \<longrightarrow>
       last_update st' = (last_update (startup no_files))(''i-001'' \<mapsto> Timestamp ?r)
       \<and> since (startup no_files) st' =
           log_events ?a INFO (''Retrieving console log for instance '' @ ''i-001'')
           @ [GetConsoleOutput ''i-001'' (Inr ?r)]
           @ log_events ?a INFO (''Console updated '' @ str_datetime (Timestamp ?r))
           @ [Log WARNING (''No console output received for instance '' @ ''i-001'')]"
    by (elim exE conjE) (rule that; assumption)
  from st'(4) novel have rec: "last_update st' = (last_update (startup no_files))(''i-001'' \<mapsto> T1)"
    and tr: "since (startup no_files) st' =
           log_events ?a INFO (''Retrieving console log for instance '' @ ''i-001'')
           @ [GetConsoleOutput ''i-001'' (Inr ?r)]
           @ log_events ?a INFO (''Console updated '' @ str_datetime (Timestamp ?r))
           @ [Log WARNING (''No console output received for instance '' @ ''i-001'')]"
    by simp_all
  have f: "files st' = no_files"
    using st'(3) by (simp add: startup_def)
  have l: "last_update st' ''i-001'' = Some T1"
    unfolding rec by simp
  have t: "since (startup no_files) st' =
      [Log INFO ''Retrieving console log for instance i-001'',
       GetConsoleOutput ''i-001'' (Inr ?r),
       Log INFO ''Console updated 2024-03-05 07:08:09+00:00'',
       Log WARNING ''No console output received for instance i-001'']"
    unfolding tr
    by (simp add: log_events_def levelno_def loglevel_def cmdline_def str_datetime_T1)
  show ?thesis
    using h1 h2 st'(1,2) f l t by (intro conjI exI [of _ st'])
qed

text \<open>
  The claim as stated says that \<open>last_update\<close> is never changed by a snapshot without
  output. From start-up, one such snapshot leaves its timestamp recorded.
\<close>

theorem no_output_counterexample:
  "fetched (cmdline 60 False False)
      (steady (Inr [[''i-001'']]) (Inr \<lparr>Timestamp = T1, Output = None\<rparr>) None None None)
      ''i-001'' (startup no_files) = Inr \<lparr>Timestamp = T1, Output = None\<rparr>
   \<and> last_update (startup no_files) ''i-001'' = None
   \<and> last_update (final (process_instance (cmdline 60 False False)
        (steady (Inr [[''i-001'']]) (Inr \<lparr>Timestamp = T1, Output = None\<rparr>) None None None)
        ''i-001'' (startup no_files))) ''i-001'' = Some T1
   \<and> last_update (final (run (Suc 0) (cmdline 60 False False)
        (steady (Inr [[''i-001'']]) (Inr \<lparr>Timestamp = T1, Output = None\<rparr>) None None None)
        (startup no_files))) ''i-001'' = Some T1"
  by (simp add: fetched_def steady_def startup_def process_instance_def poll_cycle_def
      logging_def emit_def Let_def no_updates_def final_def sleep_def sleep_error_def cmdline_def
      levelno_def loglevel_def)

section \<open>A failed file write\<close>

lemma delivery_in_trace:
  assumes "is_delivery x"
  shows "x \<in> set (since st (final (delivered a i r out put opened written st))) \<longleftrightarrow>
     x \<in> set (PutObject (bucket a) (i @ ''/'' @ str_datetime (Timestamp r)) out put
       # (if print a then print_events i (Timestamp r) out else [])
       @ (if file a then file_calls i (Timestamp r) out opened written else []))"
proof -
  have "x \<in> set (since st (final (delivered a i r out put opened written st))) \<longleftrightarrow>
      x \<in> set (filter is_delivery (since st (final (delivered a i r out put opened written st))))"
    using assms by simp
  then show ?thesis
    unfolding deliveries_delivered .
qed

lemma last_file_events:
  "last (xs @ file_events a i t out opened written) =
     (case opened of
        Some e \<Rightarrow> FileOpen (i @ ''_'' @ strftime t) opened
      | None \<Rightarrow> FileWrite (i @ ''_'' @ strftime t) (out @ newline) written)"
  by (cases opened) (simp_all add: file_events_def)

lemma for_instances_crash:
  assumes "process_instance a world i st = Inl c"
  shows "for_instances a world (i # rest) st = Inl c"
    and "for_reservations a world ((i # rest) # others) st = Inl c"
  using assms by simp_all

lemma poll_cycle_crash:
  assumes "listed a world s = Inr (before @ (pre @ i # rest) # others)"
    and "for_reservations a world (before @ [pre]) (listing_done a world s) = Inr st"
    and "process_instance a world i st = Inl c"
  shows "poll_cycle a world s = Inl c"
proof -
  obtain s1 where s1: "for_reservations a world before (listing_done a world s) = Inr s1"
    and pre: "for_instances a world pre s1 = Inr st"
    using assms(2)
    by (auto simp: for_reservations_append split: sum.splits)
  have "for_instances a world (pre @ i # rest) s1 = Inl c"
    using pre assms(3) by (simp add: for_instances_append)
  then have "for_reservations a world (before @ (pre @ i # rest) # others) (listing_done a world s)
      = Inl c"
    using s1 by (simp add: for_reservations_append)
  then show ?thesis
    using assms(1) by (simp add: poll_cycle_listed)
qed

text \<open>
  Claim C10. When a snapshot with output and a timestamp that is not the recorded one is
  delivered and opening or writing the local file raises \<open>e\<close> (which can only happen with
  the file sink enabled), nothing catches \<open>e\<close>: the loop body ends the process with \<open>e\<close>, the
  failed file call is the last thing the program does, the instances that follow in the
  reservation and the later reservations are not processed, and the turn and the whole loop
  end with \<open>e\<close>, wherever in the listing the instance stands. An archive failure, in
  contrast, is caught inside \<open>out_to_s3\<close>, which has no way to end the process.
\<close>

theorem file_failure_ends_process:
  assumes "fetched a world i st = Inr r" and "last_update st i \<noteq> Some (Timestamp r)"
    and "Output r = Some out"
    and "FileOpen (i @ ''_'' @ strftime (Timestamp r)) (Some e)
           \<in> set (since st (final (process_instance a world i st)))
         \<or> FileWrite (i @ ''_'' @ strftime (Timestamp r)) (out @ newline) (Some e)
           \<in> set (since st (final (process_instance a world i st)))"
  shows "\<exists>st'. process_instance a world i st = Inl (e, st')
           \<and> file a
           \<and> (last (events st') = FileOpen (i @ ''_'' @ strftime (Timestamp r)) (Some e)
              \<or> last (events st')
                  = FileWrite (i @ ''_'' @ strftime (Timestamp r)) (out @ newline) (Some e))
           \<and> for_instances a world (i # rest) st = Inl (e, st')
           \<and> for_reservations a world ((i # rest) # others) st = Inl (e, st')
           \<and> (\<forall>s before pre n.
                 listed a world s = Inr (before @ (pre @ i # rest) # others)
                 \<and> for_reservations a world (before @ [pre]) (listing_done a world s) = Inr st
                 \<longrightarrow> poll_cycle a world s = Inl (e, st')
                     \<and> run (Suc n) a world s = Inl (e, st'))"
proof -
  obtain put opened written where d:
    "process_instance a world i st = delivered a i r out put opened written st"
    using process_instance_delivered [OF assms(1-3)] by blast
  let ?st' = "final (delivered a i r out put opened written st)"
  have mem: "FileOpen (i @ ''_'' @ strftime (Timestamp r)) (Some e)
      \<in> set (PutObject (bucket a) (i @ ''/'' @ str_datetime (Timestamp r)) out put
       # (if print a then print_events i (Timestamp r) out else [])
       @ (if file a then file_calls i (Timestamp r) out opened written else []))
    \<or> FileWrite (i @ ''_'' @ strftime (Timestamp r)) (out @ newline) (Some e)
      \<in> set (PutObject (bucket a) (i @ ''/'' @ str_datetime (Timestamp r)) out put
       # (if print a then print_events i (Timestamp r) out else [])
       @ (if file a then file_calls i (Timestamp r) out opened written else []))"
    using assms(4) unfolding d by (simp only: delivery_in_trace is_delivery.simps)
  have fa: "file a"
    using mem by (cases "file a") (auto simp: print_events_def)
  have outcome: "opened = Some e \<or> opened = None \<and> written = Some e"
    using mem fa by (cases opened) (auto simp: print_events_def file_calls_def)
  then have cr: "crashed (delivered a i r out put opened written st) = Some e"
    using fa by (auto simp: crashed_delivered)
  have res: "process_instance a world i st = Inl (e, ?st')"
    using result_cases [of "delivered a i r out put opened written st"] cr d by simp
  have ev: "events ?st' = (events st @ fetch_events a i r
       @ s3_events a (bucket a) i (Timestamp r) out put
       @ (if print a then print_events i (Timestamp r) out else []))
       @ file_events a i (Timestamp r) out opened written"
    using fa by (simp add: events_delivered)
  have la: "last (events ?st') = FileOpen (i @ ''_'' @ strftime (Timestamp r)) (Some e)
      \<or> last (events ?st') = FileWrite (i @ ''_'' @ strftime (Timestamp r)) (out @ newline) (Some e)"
    unfolding ev last_file_events using outcome by auto
  have cyc: "poll_cycle a world s = Inl (e, ?st') \<and> run (Suc n) a world s = Inl (e, ?st')"
    if "listed a world s = Inr (before @ (pre @ i # rest) # others)"
      and "for_reservations a world (before @ [pre]) (listing_done a world s) = Inr st"
    for s before pre n
    using poll_cycle_crash [OF that res] by simp
  show ?thesis
    using res fa la for_instances_crash [OF res] cyc by blast
qed


theorem file_failure_ends_process_witness:
  "fetched (cmdline 60 True False)
      (steady (Inr [[''i-001'', ''i-002'']]) (Inr \<lparr>Timestamp = T1, Output = Some ''panic log A''\<rparr>)
         None (Some ''Permission denied'') None)
      ''i-001''
      (listing_done (cmdline 60 True False)
         (steady (Inr [[''i-001'', ''i-002'']]) (Inr \<lparr>Timestamp = T1, Output = Some ''panic log A''\<rparr>)
            None (Some ''Permission denied'') None)
         (startup no_files))
     = Inr \<lparr>Timestamp = T1, Output = Some ''panic log A''\<rparr>
   \<and> FileOpen ''i-001_2024-03-05T070809'' (Some ''Permission denied'')
       \<in> set (since
           (listing_done (cmdline 60 True False)
              (steady (Inr [[''i-001'', ''i-002'']]) (Inr \<lparr>Timestamp = T1, Output = Some ''panic log A''\<rparr>)
                 None (Some ''Permission denied'') None)
              (startup no_files))
           (final (process_instance (cmdline 60 True False)
              (steady (Inr [[''i-001'', ''i-002'']]) (Inr \<lparr>Timestamp = T1, Output = Some ''panic log A''\<rparr>)
                 None (Some ''Permission denied'') None)
              ''i-001''
              (listing_done (cmdline 60 True False)
                 (steady (Inr [[''i-001'', ''i-002'']]) (Inr \<lparr>Timestamp = T1, Output = Some ''panic log A''\<rparr>)
                    None (Some ''Permission denied'') None)
                 (startup no_files)))))
   \<and> crashed (run (Suc 0) (cmdline 60 True False)
        (steady (Inr [[''i-001'', ''i-002'']]) (Inr \<lparr>Timestamp = T1, Output = Some ''panic log A''\<rparr>)
           None (Some ''Permission denied'') None)
        (startup no_files)) = Some ''Permission denied''
   \<and> filter is_fetch (events (final (run (Suc 0) (cmdline 60 True False)
        (steady (Inr [[''i-001'', ''i-002'']]) (Inr \<lparr>Timestamp = T1, Output = Some ''panic log A''\<rparr>)
           None (Some ''Permission denied'') None)
        (startup no_files))))
     = [GetConsoleOutput ''i-001'' (Inr \<lparr>Timestamp = T1, Output = Some ''panic log A''\<rparr>)]"
proof -
  let ?a = "cmdline 60 True False"
  let ?r = "\<lparr>Timestamp = T1, Output = Some ''panic log A''\<rparr>"
  let ?w = "steady (Inr [[''i-001'', ''i-002'']]) (Inr ?r) None (Some ''Permission denied'') None"
  let ?st = "listing_done ?a ?w (startup no_files)"
  have ev: "events (final (process_instance ?a ?w ''i-001'' ?st)) =
     [Log INFO ''Retrieving instances'',
      DescribeInstances ''monitor'' (Inr [[''i-001'', ''i-002'']]),
      Log INFO ''Retrieving console log for instance i-001'',
      GetConsoleOutput ''i-001'' (Inr ?r),
      Log INFO ''Console updated 2024-03-05 07:08:09+00:00'',
      Log INFO ''Writing key i-001/2024-03-05 07:08:09+00:00 to S3 bucket console-logs'',
      PutObject ''console-logs'' ''i-001/2024-03-05 07:08:09+00:00'' ''panic log A'' None,
      FileOpen ''i-001_2024-03-05T070809'' (Some ''Permission denied'')]"
    by (simp add: process_instance_def listing_done_def listed_def steady_def startup_def
        logging_def emit_def Let_def no_updates_def final_def cmdline_def levelno_def
        loglevel_def out_to_s3_def out_to_file_def str_datetime_T1 strftime_T1)
  have h1: "fetched ?a ?w ''i-001'' ?st = Inr ?r"
    by (simp add: fetched_def steady_def)
  have h2: "last_update ?st ''i-001'' \<noteq> Some (Timestamp ?r)"
    by (simp add: listing_done_def logging_def emit_def startup_def)
  have h3: "Output ?r = Some ''panic log A''"
    by simp
  have h4: "FileOpen ''i-001_2024-03-05T070809'' (Some ''Permission denied'')
      \<in> set (since ?st (final (process_instance ?a ?w ''i-001'' ?st)))"
    unfolding since_def ev
    by (simp add: listing_done_def logging_def emit_def startup_def cmdline_def levelno_def
        loglevel_def)
  have h4': "FileOpen (''i-001'' @ ''_'' @ strftime (Timestamp ?r)) (Some ''Permission denied'')
           \<in> set (since ?st (final (process_instance ?a ?w ''i-001'' ?st)))
         \<or> FileWrite (''i-001'' @ ''_'' @ strftime (Timestamp ?r)) (''panic log A'' @ newline)
             (Some ''Permission denied'')
           \<in> set (since ?st (final (process_instance ?a ?w ''i-001'' ?st)))"
    using h4 by (simp add: strftime_T1)
  from file_failure_ends_process [OF h1 h2 h3 h4', of "[''i-002'']" "[]"]
  obtain st' where st': "process_instance ?a ?w ''i-001'' ?st = Inl (''Permission denied'', st')"
    and cyc: "\<And>s before pre n.
       listed ?a ?w s = Inr (before @ (pre @ ''i-001'' # [''i-002'']) # [])
       \<Longrightarrow> for_reservations ?a ?w (before @ [pre]) (listing_done ?a ?w s) = Inr ?st
       \<Longrightarrow> run (Suc n) ?a ?w s = Inl (''Permission denied'', st')"
    by blast
  have "listed ?a ?w (startup no_files) = Inr ([] @ ([] @ ''i-001'' # [''i-002'']) # [])"
    by (simp add: listed_def steady_def)
  moreover have "for_reservations ?a ?w ([] @ [[]]) ?st = Inr ?st"
    by simp
  ultimately have run1: "run (Suc 0) ?a ?w (startup no_files) = Inl (''Permission denied'', st')"
    by (rule cyc)
  have fin: "final (process_instance ?a ?w ''i-001'' ?st) = st'"
    using st' by (simp add: final_simps)
  show ?thesis
    using h1 h4 ev unfolding run1 fin by (simp add: crashed_simps final_simps)
qed

section \<open>A failed archive write\<close>

lemma error_in_s3_events:
  "Log ERROR (''Cannot put object to S3 bucket'' @ b @ '':'' @ e)
     \<in> set (s3_events a b i t out (Some e))"
  by (simp add: s3_events_def)

lemma not_crashed: "crashed r = None \<Longrightarrow> r = Inr (final r)"
  by (cases r) (auto simp: crashed_def final_def)

text \<open>
  Claim C4. When a snapshot with output and a timestamp that is not the recorded one is
  delivered and the archive client raises \<open>e\<close>, the error is logged (at a level that
  \<open>--quiet\<close> does not hide), the print block follows when printing is enabled and the file
  calls follow when the file sink is enabled, exactly as after a successful write. Whether
  the process ends there depends on the file calls alone, never on \<open>e\<close>; when it does not
  end, the loop goes on with the next instance.
\<close>

theorem archive_failure_is_caught:
  fixes a :: args and world :: env and i :: string and st st' :: state
  defines "st' \<equiv> final (process_instance a world i st)"
  assumes "fetched a world i st = Inr r" and "last_update st i \<noteq> Some (Timestamp r)"
    and "Output r = Some out"
    and "PutObject (bucket a) (i @ ''/'' @ str_datetime (Timestamp r)) out (Some e)
           \<in> set (since st st')"
  shows "\<exists>opened written.
           Log ERROR (''Cannot put object to S3 bucket'' @ bucket a @ '':'' @ e)
               \<in> set (since st st')
           \<and> filter is_delivery (since st st') =
               PutObject (bucket a) (i @ ''/'' @ str_datetime (Timestamp r)) out (Some e)
               # (if print a then print_events i (Timestamp r) out else [])
               @ (if file a then file_calls i (Timestamp r) out opened written else [])
           \<and> crashed (process_instance a world i st) =
               (if file a then (case opened of Some x \<Rightarrow> Some x | None \<Rightarrow> written) else None)
           \<and> (crashed (process_instance a world i st) = None \<longrightarrow>
                for_instances a world (i # rest) st = for_instances a world rest st')"
proof -
  obtain put opened written where d:
    "process_instance a world i st = delivered a i r out put opened written st"
    using process_instance_delivered [OF assms(2-4)] by blast
  have st': "st' = final (delivered a i r out put opened written st)"
    unfolding st'_def d ..
  have "PutObject (bucket a) (i @ ''/'' @ str_datetime (Timestamp r)) out (Some e)
      \<in> set (PutObject (bucket a) (i @ ''/'' @ str_datetime (Timestamp r)) out put
       # (if print a then print_events i (Timestamp r) out else [])
       @ (if file a then file_calls i (Timestamp r) out opened written else []))"
    using assms(5) unfolding st' by (simp only: delivery_in_trace is_delivery.simps)
  then have put: "put = Some e"
    by (cases opened) (auto simp: print_events_def file_calls_def split: if_splits)
  have new: "since st st' = fetch_events a i r
       @ s3_events a (bucket a) i (Timestamp r) out (Some e)
       @ (if print a then print_events i (Timestamp r) out else [])
       @ (if file a then file_events a i (Timestamp r) out opened written else [])"
    unfolding st' using since_append [OF events_delivered] put by simp
  have err: "Log ERROR (''Cannot put object to S3 bucket'' @ bucket a @ '':'' @ e)
      \<in> set (since st st')"
    unfolding new using error_in_s3_events [of "bucket a" e a i "Timestamp r" out] by simp
  have del: "filter is_delivery (since st st') =
      PutObject (bucket a) (i @ ''/'' @ str_datetime (Timestamp r)) out (Some e)
      # (if print a then print_events i (Timestamp r) out else [])
      @ (if file a then file_calls i (Timestamp r) out opened written else [])"
    unfolding st' using deliveries_delivered [of st a i r out put opened written] put by simp
  have cr: "crashed (process_instance a world i st) =
      (if file a then (case opened of Some x \<Rightarrow> Some x | None \<Rightarrow> written) else None)"
    unfolding d by (rule crashed_delivered)
  have go: "for_instances a world (i # rest) st = for_instances a world rest st'"
    if "crashed (process_instance a world i st) = None"
  proof -
    from not_crashed [OF that] obtain s where s: "process_instance a world i st = Inr s"
      by blast
    then have "st' = s"
      by (simp add: st'_def final_simps)
    with s show ?thesis
      by simp
  qed
  show ?thesis
    by (intro exI [of _ opened] exI [of _ written] conjI impI; (rule err del cr | erule go))
qed

theorem archive_failure_is_caught_witness:
  "fetched (cmdline 60 True True)
      (steady (Inr [[''i-001'', ''i-002'']]) (Inr \<lparr>Timestamp = T1, Output = Some ''panic log A''\<rparr>)
         (Some ''AccessDenied'') None None)
      ''i-001'' (startup no_files)
     = Inr \<lparr>Timestamp = T1, Output = Some ''panic log A''\<rparr>
   \<and> last_update (startup no_files) ''i-001'' = None
   \<and> PutObject ''console-logs'' ''i-001/2024-03-05 07:08:09+00:00'' ''panic log A''
        (Some ''AccessDenied'')
       \<in> set (since (startup no_files)
           (final (process_instance (cmdline 60 True True)
              (steady (Inr [[''i-001'', ''i-002'']])
                 (Inr \<lparr>Timestamp = T1, Output = Some ''panic log A''\<rparr>)
                 (Some ''AccessDenied'') None None)
              ''i-001'' (startup no_files))))
   \<and> (\<exists>st'. process_instance (cmdline 60 True True)
              (steady (Inr [[''i-001'', ''i-002'']])
                 (Inr \<lparr>Timestamp = T1, Output = Some ''panic log A''\<rparr>)
                 (Some ''AccessDenied'') None None)
              ''i-001'' (startup no_files) = Inr st'
        \<and> Log ERROR ''Cannot put object to S3 bucketconsole-logs:AccessDenied''
            \<in> set (events st')
        \<and> filter is_delivery (events st') =
            [PutObject ''console-logs'' ''i-001/2024-03-05 07:08:09+00:00'' ''panic log A''
               (Some ''AccessDenied''),
             Stdout (''===================================='' @ newline),
             Stdout (''Instance ID: i-001'' @ newline),
             Stdout (''Timestamp: 2024-03-05 07:08:09+00:00'' @ newline),
             Stdout (''------------------------------------'' @ newline),
             Stdout (''panic log A'' @ newline),
             FileOpen ''i-001_2024-03-05T070809'' None,
             FileWrite ''i-001_2024-03-05T070809'' (''panic log A'' @ newline) None]
        \<and> for_instances (cmdline 60 True True)
              (steady (Inr [[''i-001'', ''i-002'']])
                 (Inr \<lparr>Timestamp = T1, Output = Some ''panic log A''\<rparr>)
                 (Some ''AccessDenied'') None None)
              [''i-001'', ''i-002''] (startup no_files)
           = for_instances (cmdline 60 True True)
              (steady (Inr [[''i-001'', ''i-002'']])
                 (Inr \<lparr>Timestamp = T1, Output = Some ''panic log A''\<rparr>)
                 (Some ''AccessDenied'') None None)
              [''i-002''] st')"
proof -
  let ?a = "cmdline 60 True True"
  let ?r = "\<lparr>Timestamp = T1, Output = Some ''panic log A''\<rparr>"
  let ?w = "steady (Inr [[''i-001'', ''i-002'']]) (Inr ?r) (Some ''AccessDenied'') None None"
  let ?st = "startup no_files"
  let ?new = "[Log INFO ''Retrieving console log for instance i-001'',
      GetConsoleOutput ''i-001'' (Inr ?r),
      Log INFO ''Console updated 2024-03-05 07:08:09+00:00'',
      Log INFO ''Writing key i-001/2024-03-05 07:08:09+00:00 to S3 bucket console-logs'',
      PutObject ''console-logs'' ''i-001/2024-03-05 07:08:09+00:00'' ''panic log A''
        (Some ''AccessDenied''),
      Log ERROR ''Cannot put object to S3 bucketconsole-logs:AccessDenied'',
      Stdout (''===================================='' @ newline),
      Stdout (''Instance ID: i-001'' @ newline),
      Stdout (''Timestamp: 2024-03-05 07:08:09+00:00'' @ newline),
      Stdout (''------------------------------------'' @ newline),
      Stdout (''panic log A'' @ newline),
      FileOpen ''i-001_2024-03-05T070809'' None,
      Log INFO ''Writing output to file i-001_2024-03-05T070809'',
      FileWrite ''i-001_2024-03-05T070809'' (''panic log A'' @ newline) None]"
  have pi: "process_instance ?a ?w ''i-001'' ?st =
     Inr \<lparr>last_update = [''i-001'' \<mapsto> T1], events = ?new,
          files = no_files(''i-001_2024-03-05T070809'' \<mapsto> ''panic log A'' @ newline)\<rparr>"
    by (simp add: process_instance_def steady_def startup_def logging_def emit_def Let_def
        no_updates_def cmdline_def levelno_def loglevel_def out_to_s3_def out_to_file_def
        out_to_print_def str_datetime_T1 strftime_T1)
  have h1: "fetched ?a ?w ''i-001'' ?st = Inr ?r"
    by (simp add: fetched_def steady_def)
  have h2: "last_update ?st ''i-001'' \<noteq> Some (Timestamp ?r)"
    and h2': "last_update ?st ''i-001'' = None"
    by (simp_all add: startup_def)
  have h3: "Output ?r = Some ''panic log A''"
    by simp
  have h4: "PutObject ''console-logs'' ''i-001/2024-03-05 07:08:09+00:00'' ''panic log A''
        (Some ''AccessDenied'')
      \<in> set (since ?st (final (process_instance ?a ?w ''i-001'' ?st)))"
    unfolding pi by (simp add: final_simps since_def startup_def)
  have h4': "PutObject (bucket ?a) (''i-001'' @ ''/'' @ str_datetime (Timestamp ?r)) ''panic log A''
        (Some ''AccessDenied'')
      \<in> set (since ?st (final (process_instance ?a ?w ''i-001'' ?st)))"
    using h4 by (simp add: str_datetime_T1 cmdline_def)
  define st' where "st' = final (process_instance ?a ?w ''i-001'' ?st)"
  from archive_failure_is_caught [OF h1 h2 h3 h4', of "[''i-002'']"]
  have go: "crashed (process_instance ?a ?w ''i-001'' ?st) = None \<longrightarrow>
       for_instances ?a ?w (''i-001'' # [''i-002'']) ?st = for_instances ?a ?w [''i-002''] st'"
    unfolding st'_def by (elim exE conjE)
  have "crashed (process_instance ?a ?w ''i-001'' ?st) = None"
    unfolding pi by (simp add: crashed_simps)
  with go have go': "for_instances ?a ?w [''i-001'', ''i-002''] ?st
      = for_instances ?a ?w [''i-002''] st'"
    by simp
  have res: "process_instance ?a ?w ''i-001'' ?st = Inr st'"
    unfolding st'_def pi by (simp add: final_simps)
  have ev: "events st' = ?new"
    unfolding st'_def pi by (simp add: final_simps)
  show ?thesis
    using h1 h2' h4 res go'
    by (intro conjI exI [of _ st']) (simp_all add: ev)
qed

section \<open>The test for a new snapshot\<close>

lemmas run_defs =
  process_instance_def poll_cycle_def listing_done_def listed_def fetched_def
  logging_def emit_def Let_def no_updates_def sleep_def sleep_error_def levelno_def loglevel_def
  out_to_s3_def out_to_file_def out_to_print_def startup_def cmdline_def

lemma recorded_after_fetch:
  assumes "fetched a world i st = Inr r"
  shows "last_update (final (process_instance a world i st)) i = Some (Timestamp r)"
proof (cases "last_update st i = Some (Timestamp r)")
  case True
  then show ?thesis
    by (simp add: process_instance_no_updates [OF assms True] final_simps)
next
  case False
  show ?thesis
  proof (cases "Output r")
    case None
    then show ?thesis
      by (simp add: process_instance_no_output [OF assms False None] final_simps)
  next
    case (Some out)
    from process_instance_delivered [OF assms False Some] obtain put opened written where
      "process_instance a world i st = delivered a i r out put opened written st"
      by blast
    then show ?thesis
      by (simp add: last_update_delivered)
  qed
qed

text \<open>
  Claim C2, as the code has it. Take two consecutive snapshots \<open>r1\<close>, \<open>r2\<close> of an instance:
  \<open>r1\<close> fetched in \<open>st\<close>, \<open>r2\<close> in a later state \<open>st2\<close> whose entry for the instance is the one
  the loop body left after \<open>r1\<close>. The test finds no update exactly when an entry exists and
  equals the new timestamp, that is exactly when the two timestamps are equal. Then nothing
  is delivered and \<open>last_update\<close> stays. Any other timestamp, earlier or later, is recorded;
  it is delivered exactly once (one archive write, one print block if enabled, one file
  write if enabled) when the snapshot carries output, and not at all when it carries none.
\<close>

theorem novelty_is_inequality:
  fixes a :: args and world :: env and i :: string and st st2 st2' :: state
  defines "st2' \<equiv> final (process_instance a world i st2)"
  assumes "fetched a world i st = Inr r1"
    and "last_update st2 i = last_update (final (process_instance a world i st)) i"
    and "fetched a world i st2 = Inr r2"
  shows "(no_updates (last_update st2) i (Timestamp r2)
            \<longleftrightarrow> (\<exists>t. last_update st2 i = Some t \<and> t = Timestamp r2))
       \<and> (no_updates (last_update st2) i (Timestamp r2) \<longleftrightarrow> Timestamp r2 = Timestamp r1)
       \<and> (Timestamp r2 = Timestamp r1 \<longrightarrow>
            process_instance a world i st2 = Inr st2'
            \<and> filter is_delivery (since st2 st2') = []
            \<and> last_update st2' = last_update st2)
       \<and> (Timestamp r2 \<noteq> Timestamp r1 \<longrightarrow>
            last_update st2' = (last_update st2)(i \<mapsto> Timestamp r2)
            \<and> (case Output r2 of
                 None \<Rightarrow> filter is_delivery (since st2 st2') = []
               | Some out \<Rightarrow>
                   (\<exists>put opened written.
                      filter is_delivery (since st2 st2') =
                        PutObject (bucket a) (i @ ''/'' @ str_datetime (Timestamp r2)) out put
                        # (if print a then print_events i (Timestamp r2) out else [])
                        @ (if file a then file_calls i (Timestamp r2) out opened written
                           else []))))"
proof -
  have seen: "last_update st2 i = Some (Timestamp r1)"
    using assms(3) recorded_after_fetch [OF assms(2)] by simp
  have a: "no_updates (last_update st2) i (Timestamp r2)
      \<longleftrightarrow> (\<exists>t. last_update st2 i = Some t \<and> t = Timestamp r2)"
    by (simp add: no_updates_iff)
  have b: "no_updates (last_update st2) i (Timestamp r2) \<longleftrightarrow> Timestamp r2 = Timestamp r1"
    using seen by (auto simp: no_updates_iff)
  have c: "process_instance a world i st2 = Inr st2'
      \<and> filter is_delivery (since st2 st2') = [] \<and> last_update st2' = last_update st2"
    if "Timestamp r2 = Timestamp r1"
  proof -
    have same: "last_update st2 i = Some (Timestamp r2)"
      using seen that by simp
    show ?thesis
      unfolding st2'_def process_instance_no_updates [OF assms(4) same]
      by (simp add: final_simps since_def deliveries_log_events)
  qed
  have d: "last_update st2' = (last_update st2)(i \<mapsto> Timestamp r2)
      \<and> (case Output r2 of
            None \<Rightarrow> filter is_delivery (since st2 st2') = []
          | Some out \<Rightarrow>
              (\<exists>put opened written.
                 filter is_delivery (since st2 st2') =
                   PutObject (bucket a) (i @ ''/'' @ str_datetime (Timestamp r2)) out put
                   # (if print a then print_events i (Timestamp r2) out else [])
                   @ (if file a then file_calls i (Timestamp r2) out opened written else [])))"
    if "Timestamp r2 \<noteq> Timestamp r1"
  proof -
    have novel: "last_update st2 i \<noteq> Some (Timestamp r2)"
      using seen that by simp
    show ?thesis
    proof (cases "Output r2")
      case None
      show ?thesis
        unfolding st2'_def process_instance_no_output [OF assms(4) novel None]
        using None by (simp add: final_simps since_def deliveries_fetch_events)
    next
      case (Some out)
      from process_instance_delivered [OF assms(4) novel Some] obtain put opened written where
        d: "process_instance a world i st2 = delivered a i r2 out put opened written st2"
        by blast
      have "filter is_delivery (since st2 st2') =
          PutObject (bucket a) (i @ ''/'' @ str_datetime (Timestamp r2)) out put
          # (if print a then print_events i (Timestamp r2) out else [])
          @ (if file a then file_calls i (Timestamp r2) out opened written else [])"
        unfolding st2'_def d by (rule deliveries_delivered)
      moreover have "last_update st2' = (last_update st2)(i \<mapsto> Timestamp r2)"
        unfolding st2'_def d by (rule last_update_delivered)
      ultimately show ?thesis
        using Some by auto
    qed
  qed
  show ?thesis
    using a b c d by blast
qed

lemma scripted_first_turn:
  "poll_cycle (cmdline 60 False False)
     (scripted \<lparr>Timestamp = T1, Output = Some ''panic log A''\<rparr> later) (startup no_files)
   = Inr \<lparr>last_update = [''i-001'' \<mapsto> T1],
          events =
            [Log INFO ''Retrieving instances'',
             DescribeInstances ''monitor'' (Inr [[''i-001'']]),
             Log INFO ''Retrieving console log for instance i-001'',
             GetConsoleOutput ''i-001'' (Inr \<lparr>Timestamp = T1, Output = Some ''panic log A''\<rparr>),
             Log INFO ''Console updated 2024-03-05 07:08:09+00:00'',
             Log INFO ''Writing key i-001/2024-03-05 07:08:09+00:00 to S3 bucket console-logs'',
             PutObject ''console-logs'' ''i-001/2024-03-05 07:08:09+00:00'' ''panic log A'' None,
             Log INFO ''Sleeping for 60 seconds, press Ctrl+C to interrupt...'',
             Sleep 60],
          files = no_files\<rparr>"
  by (simp add: poll_cycle_listed listed_def listing_done_def scripted_def cmdline_def
      logging_events log_events_def levelno_def loglevel_def emit_def startup_def
      process_instance_def fetched_def no_updates_def Let_def out_to_s3_def sleep_def sleep_error_def
      str_datetime_T1 str_int_60)

lemma scripted_second_turn:
  "poll_cycle (cmdline 60 False False)
        (scripted \<lparr>Timestamp = T1, Output = Some ''panic log A''\<rparr>
           \<lparr>Timestamp = T0, Output = None\<rparr>)
     \<lparr>last_update = [''i-001'' \<mapsto> T1],
          events =
            [Log INFO ''Retrieving instances'',
             DescribeInstances ''monitor'' (Inr [[''i-001'']]),
             Log INFO ''Retrieving console log for instance i-001'',
             GetConsoleOutput ''i-001'' (Inr \<lparr>Timestamp = T1, Output = Some ''panic log A''\<rparr>),
             Log INFO ''Console updated 2024-03-05 07:08:09+00:00'',
             Log INFO ''Writing key i-001/2024-03-05 07:08:09+00:00 to S3 bucket console-logs'',
             PutObject ''console-logs'' ''i-001/2024-03-05 07:08:09+00:00'' ''panic log A'' None,
             Log INFO ''Sleeping for 60 seconds, press Ctrl+C to interrupt...'',
             Sleep 60],
          files = no_files\<rparr>
   = Inr \<lparr>last_update = [''i-001'' \<mapsto> T0],
          events =
            [Log INFO ''Retrieving instances'',
             DescribeInstances ''monitor'' (Inr [[''i-001'']]),
             Log INFO ''Retrieving console log for instance i-001'',
             GetConsoleOutput ''i-001'' (Inr \<lparr>Timestamp = T1, Output = Some ''panic log A''\<rparr>),
             Log INFO ''Console updated 2024-03-05 07:08:09+00:00'',
             Log INFO ''Writing key i-001/2024-03-05 07:08:09+00:00 to S3 bucket console-logs'',
             PutObject ''console-logs'' ''i-001/2024-03-05 07:08:09+00:00'' ''panic log A'' None,
             Log INFO ''Sleeping for 60 seconds, press Ctrl+C to interrupt...'',
             Sleep 60,
             Log INFO ''Retrieving instances'',
             DescribeInstances ''monitor'' (Inr [[''i-001'']]),
             Log INFO ''Retrieving console log for instance i-001'',
             GetConsoleOutput ''i-001'' (Inr \<lparr>Timestamp = T0, Output = None\<rparr>),
             Log INFO ''Console updated 2023-12-31 23:59:59+00:00'',
             Log WARNING ''No console output received for instance i-001'',
             Log INFO ''Sleeping for 60 seconds, press Ctrl+C to interrupt...'',
             Sleep 60],
          files = no_files\<rparr>"
  by (simp add: poll_cycle_listed listed_def listing_done_def scripted_def cmdline_def
      logging_events log_events_def levelno_def loglevel_def emit_def
      process_instance_def fetched_def no_updates_def Let_def sleep_def sleep_error_def
      str_datetime_T0 str_int_60 T0_T1 [symmetric])

text \<open>
  The claim as stated has every changed timestamp delivered once. From start-up, a first
  snapshot at \<open>T1\<close> with output and a second at the earlier \<open>T0\<close> without output: both are
  fetched, the second is recorded, and the only delivery of the run is the first one's.
\<close>

theorem novelty_counterexample:
  "Timestamp \<lparr>Timestamp = T0, Output = None\<rparr>
     \<noteq> Timestamp \<lparr>Timestamp = T1, Output = Some ''panic log A''\<rparr>
   \<and> filter is_fetch (events (final (run (Suc (Suc 0)) (cmdline 60 False False)
        (scripted \<lparr>Timestamp = T1, Output = Some ''panic log A''\<rparr>
           \<lparr>Timestamp = T0, Output = None\<rparr>)
        (startup no_files))))
     = [GetConsoleOutput ''i-001'' (Inr \<lparr>Timestamp = T1, Output = Some ''panic log A''\<rparr>),
        GetConsoleOutput ''i-001'' (Inr \<lparr>Timestamp = T0, Output = None\<rparr>)]
   \<and> filter is_delivery (events (final (run (Suc (Suc 0)) (cmdline 60 False False)
        (scripted \<lparr>Timestamp = T1, Output = Some ''panic log A''\<rparr>
           \<lparr>Timestamp = T0, Output = None\<rparr>)
        (startup no_files))))
     = [PutObject ''console-logs'' ''i-001/2024-03-05 07:08:09+00:00'' ''panic log A'' None]
   \<and> last_update (final (run (Suc (Suc 0)) (cmdline 60 False False)
        (scripted \<lparr>Timestamp = T1, Output = Some ''panic log A''\<rparr>
           \<lparr>Timestamp = T0, Output = None\<rparr>)
        (startup no_files))) ''i-001'' = Some T0"
  unfolding run.simps scripted_first_turn sum.case scripted_second_turn final_simps
  by (simp add: T0_T1)

theorem novelty_is_inequality_witness:
  "fetched (cmdline 60 False False) (scripted log_A log_B) ''i-001''
      (listing_done (cmdline 60 False False) (scripted log_A log_B) (startup no_files))
     = Inr log_A
   \<and> last_update (second_turn (cmdline 60 False False) (scripted log_A log_B)) ''i-001''
     = last_update (final (process_instance (cmdline 60 False False) (scripted log_A log_B)
          ''i-001''
          (listing_done (cmdline 60 False False) (scripted log_A log_B) (startup no_files))))
        ''i-001''
   \<and> fetched (cmdline 60 False False) (scripted log_A log_B) ''i-001''
      (second_turn (cmdline 60 False False) (scripted log_A log_B)) = Inr log_B
   \<and> Timestamp log_B \<noteq> Timestamp log_A
   \<and> (\<exists>put. filter is_delivery
         (since (second_turn (cmdline 60 False False) (scripted log_A log_B))
            (final (process_instance (cmdline 60 False False) (scripted log_A log_B) ''i-001''
               (second_turn (cmdline 60 False False) (scripted log_A log_B)))))
        = [PutObject ''console-logs'' ''i-001/2023-12-31 23:59:59+00:00'' ''panic log B'' put])"
proof -
  let ?a = "cmdline 60 False False"
  let ?w = "scripted log_A log_B"
  let ?st = "listing_done ?a ?w (startup no_files)"
  let ?st2 = "second_turn ?a ?w"
  have h1: "fetched ?a ?w ''i-001'' ?st = Inr log_A"
    by (simp add: fetched_def scripted_def listing_done_def logging_def emit_def startup_def
        cmdline_def levelno_def loglevel_def)
  have seen: "last_update ?st2 ''i-001'' = Some T1"
    unfolding second_turn_def log_A_def scripted_first_turn final_simps
    by (simp add: listing_done_def logging_def emit_def)
  have h2: "last_update ?st2 ''i-001''
      = last_update (final (process_instance ?a ?w ''i-001'' ?st)) ''i-001''"
    unfolding seen recorded_after_fetch [OF h1] by (simp add: log_A_def)
  have h3: "fetched ?a ?w ''i-001'' ?st2 = Inr log_B"
    unfolding second_turn_def log_A_def scripted_first_turn final_simps
    by (simp add: fetched_def scripted_def listing_done_def logging_def emit_def
        cmdline_def levelno_def loglevel_def)
  have ne: "Timestamp log_B \<noteq> Timestamp log_A"
    by (simp add: log_A_def log_B_def T0_T1)
  from novelty_is_inequality [OF h1 h2 h3, THEN conjunct2, THEN conjunct2, THEN conjunct2,
      THEN mp, OF ne, THEN conjunct2]
  have "case Output log_B of
       None \<Rightarrow> filter is_delivery
         (since ?st2 (final (process_instance ?a ?w ''i-001'' ?st2))) = []
     | Some out \<Rightarrow>
         (\<exists>put opened written.
            filter is_delivery (since ?st2 (final (process_instance ?a ?w ''i-001'' ?st2))) =
              PutObject (bucket ?a) (''i-001'' @ ''/'' @ str_datetime (Timestamp log_B)) out put
              # (if print ?a then print_events ''i-001'' (Timestamp log_B) out else [])
              @ (if file ?a then file_calls ''i-001'' (Timestamp log_B) out opened written
                 else []))"
    .
  then have "\<exists>put. filter is_delivery
       (since ?st2 (final (process_instance ?a ?w ''i-001'' ?st2)))
      = [PutObject ''console-logs'' ''i-001/2023-12-31 23:59:59+00:00'' ''panic log B'' put]"
    by (simp add: log_B_def str_datetime_T0 cmdline_def)
  with h1 h2 h3 ne show ?thesis
    by (intro conjI)
qed

section \<open>The fetches of a run\<close>

lemma fetched_ids_append: "fetched_ids (xs @ ys) = fetched_ids xs @ fetched_ids ys"
  by (simp add: fetched_ids_def map_filter_def)

lemma fetched_ids_simps:
  "fetched_ids [] = []"
  "fetched_ids (GetConsoleOutput i r # es) = i # fetched_ids es"
  "fetched_ids (Log l msg # es) = fetched_ids es"
  "fetched_ids (PutObject b k body put # es) = fetched_ids es"
  "fetched_ids (Stdout text # es) = fetched_ids es"
  "fetched_ids (FileOpen f opened # es) = fetched_ids es"
  "fetched_ids (FileWrite f text written # es) = fetched_ids es"
  "fetched_ids (Sleep secs # es) = fetched_ids es"
  "fetched_ids (DescribeInstances t listing # es) = fetched_ids es"
  by (simp_all add: fetched_ids_def map_filter_def)

lemma fetched_ids_log_events: "fetched_ids (log_events a l msg) = []"
  by (simp add: log_events_def fetched_ids_simps)

lemma fetched_ids_fetch_events: "fetched_ids (fetch_events a i r) = [i]"
  by (simp add: fetch_events_def fetched_ids_append fetched_ids_log_events fetched_ids_simps)

lemma fetched_ids_s3_events: "fetched_ids (s3_events a b i t out put) = []"
  by (cases put)
    (simp_all add: s3_events_def fetched_ids_append fetched_ids_log_events fetched_ids_simps)

lemma fetched_ids_print_events: "fetched_ids (print_events i t out) = []"
  by (simp add: print_events_def fetched_ids_simps)

lemma fetched_ids_file_events: "fetched_ids (file_events a i t out opened written) = []"
  by (cases opened)
    (simp_all add: file_events_def fetched_ids_append fetched_ids_log_events fetched_ids_simps)

text \<open>The loop body fetches the console of its instance, once, whatever comes of it.\<close>

lemma process_instance_fetches:
  "\<exists>new. events (final (process_instance a world i st)) = events st @ new
         \<and> fetched_ids new = [i]"
proof (cases "fetched a world i st")
  case (Inl e)
  show ?thesis
    unfolding process_instance_fetch_failed [OF Inl] final_simps
    by (simp add: fetched_ids_append fetched_ids_log_events fetched_ids_simps)
next
  case (Inr r)
  show ?thesis
  proof (cases "last_update st i = Some (Timestamp r)")
    case True
    show ?thesis
      unfolding process_instance_no_updates [OF Inr True] final_simps
      by (simp add: fetched_ids_append fetched_ids_log_events fetched_ids_simps)
  next
    case False
    show ?thesis
    proof (cases "Output r")
      case None
      show ?thesis
        unfolding process_instance_no_output [OF Inr False None] final_simps
        by (simp add: fetched_ids_append fetched_ids_fetch_events fetched_ids_simps)
    next
      case (Some out)
      from process_instance_delivered [OF Inr False Some] obtain put opened written where
        d: "process_instance a world i st = delivered a i r out put opened written st"
        by blast
      show ?thesis
        unfolding d events_delivered
        by (simp add: fetched_ids_append fetched_ids_fetch_events fetched_ids_s3_events
            fetched_ids_print_events fetched_ids_file_events fetched_ids_simps)
    qed
  qed
qed

text \<open>
  A loop over instances fetches them in order: all of them when the process goes on, and at
  least the first one in any case.
\<close>

lemma for_instances_fetches:
  "\<exists>new k. events (final (for_instances a world js st)) = events st @ new
         \<and> fetched_ids new = take k js \<and> k \<le> length js \<and> (js \<noteq> [] \<longrightarrow> 0 < k)
         \<and> (crashed (for_instances a world js st) = None \<longrightarrow> k = length js)"
proof (induction js arbitrary: st)
  case Nil
  show ?case
    by (simp add: final_simps crashed_simps fetched_ids_simps)
next
  case (Cons j js)
  obtain n1 where n1: "events (final (process_instance a world j st)) = events st @ n1"
    "fetched_ids n1 = [j]"
    using process_instance_fetches by blast
  show ?case
  proof (cases "process_instance a world j st")
    case (Inl c)
    obtain e s' where c: "c = (e, s')"
      by (cases c)
    have res: "for_instances a world (j # js) st = Inl (e, s')"
      using Inl c by simp
    have "events (final (for_instances a world (j # js) st)) = events st @ n1"
      using n1(1) unfolding res Inl c by (simp add: final_simps)
    moreover have "crashed (for_instances a world (j # js) st) = Some e"
      unfolding res by (simp add: crashed_simps)
    ultimately show ?thesis
      using n1(2)
      by (intro exI [of _ n1] exI [of _ 1]) (simp del: for_instances.simps)
  next
    case (Inr s1)
    from Cons.IH [of s1] obtain n2 k where n2:
      "events (final (for_instances a world js s1)) = events s1 @ n2"
      "fetched_ids n2 = take k js" "k \<le> length js"
      "crashed (for_instances a world js s1) = None \<longrightarrow> k = length js"
      by (elim exE conjE) (rule that; assumption)
    have s1: "events s1 = events st @ n1"
      using n1(1) Inr by (simp add: final_simps)
    have "events (final (for_instances a world (j # js) st)) = events st @ (n1 @ n2)"
      using Inr n2(1) s1 by simp
    moreover have "fetched_ids (n1 @ n2) = take (Suc k) (j # js)"
      using n1(2) n2(2) by (simp add: fetched_ids_append)
    moreover have "crashed (for_instances a world (j # js) st) = None \<longrightarrow> Suc k = length (j # js)"
      using Inr n2(4) by simp
    ultimately show ?thesis
      using n2(3)
      by (intro exI [of _ "n1 @ n2"] exI [of _ "Suc k"]) (simp del: for_instances.simps)
  qed
qed

lemma for_reservations_fetches:
  "\<exists>new k. events (final (for_reservations a world rs st)) = events st @ new
         \<and> fetched_ids new = take k (concat rs) \<and> k \<le> length (concat rs)
         \<and> (concat rs \<noteq> [] \<longrightarrow> 0 < k)
         \<and> (crashed (for_reservations a world rs st) = None \<longrightarrow> k = length (concat rs))"
proof (induction rs arbitrary: st)
  case Nil
  show ?case
    by (simp add: final_simps crashed_simps fetched_ids_simps)
next
  case (Cons js rs)
  from for_instances_fetches [of a world js st] obtain n1 k1 where n1:
    "events (final (for_instances a world js st)) = events st @ n1"
    "fetched_ids n1 = take k1 js" "k1 \<le> length js" "js \<noteq> [] \<longrightarrow> 0 < k1"
    "crashed (for_instances a world js st) = None \<longrightarrow> k1 = length js"
    by (elim exE conjE) (rule that; assumption)
  show ?case
  proof (cases "for_instances a world js st")
    case (Inl c)
    obtain x s' where cx: "c = (x, s')"
      by (cases c)
    have res: "for_reservations a world (js # rs) st = Inl (x, s')"
      using Inl cx by simp
    have e: "events (final (for_reservations a world (js # rs) st)) = events st @ n1"
      using n1(1) unfolding res Inl cx by (simp add: final_simps)
    have c: "crashed (for_reservations a world (js # rs) st) = Some x"
      unfolding res by (simp add: crashed_simps)
    have j: "js \<noteq> []"
      using Inl by auto
    have "fetched_ids n1 = take k1 (concat (js # rs))"
      using n1(2,3) by simp
    then show ?thesis
      using e c j n1(3,4)
      by (intro exI [of _ n1] exI [of _ k1]) (simp del: for_reservations.simps)
  next
    case (Inr s1)
    from Cons.IH [of s1] obtain n2 k2 where n2:
      "events (final (for_reservations a world rs s1)) = events s1 @ n2"
      "fetched_ids n2 = take k2 (concat rs)" "k2 \<le> length (concat rs)"
      "concat rs \<noteq> [] \<longrightarrow> 0 < k2"
      "crashed (for_reservations a world rs s1) = None \<longrightarrow> k2 = length (concat rs)"
      by (elim exE conjE) (rule that; assumption)
    have k1: "k1 = length js"
      using n1(5) Inr by (simp add: crashed_simps)
    have s1: "events s1 = events st @ n1"
      using n1(1) Inr by (simp add: final_simps)
    have "events (final (for_reservations a world (js # rs) st)) = events st @ (n1 @ n2)"
      using Inr n2(1) s1 by simp
    moreover have "fetched_ids (n1 @ n2) = take (length js + k2) (concat (js # rs))"
      using n1(2) n2(2) k1 by (simp add: fetched_ids_append)
    moreover have "crashed (for_reservations a world (js # rs) st) = None
        \<longrightarrow> length js + k2 = length (concat (js # rs))"
      using Inr n2(5) by simp
    moreover have "concat (js # rs) \<noteq> [] \<longrightarrow> 0 < length js + k2"
      using n2(4) by auto
    ultimately show ?thesis
      using n2(3)
      by (intro exI [of _ "n1 @ n2"] exI [of _ "length js + k2"])
        (simp del: for_reservations.simps)
  qed
qed

lemma process_instance_begins:
  "\<exists>new. events (final (process_instance a world i st)) =
      events st @ log_events a INFO (''Retrieving console log for instance '' @ i)
      @ GetConsoleOutput i (fetched a world i st) # new"
proof (cases "fetched a world i st")
  case (Inl e)
  show ?thesis
    unfolding process_instance_fetch_failed [OF Inl] final_simps Inl by simp
next
  case (Inr r)
  show ?thesis
  proof (cases "last_update st i = Some (Timestamp r)")
    case True
    show ?thesis
      unfolding process_instance_no_updates [OF Inr True] final_simps Inr by simp
  next
    case False
    show ?thesis
    proof (cases "Output r")
      case None
      show ?thesis
        unfolding process_instance_no_output [OF Inr False None] final_simps Inr
        by (simp add: fetch_events_def)
    next
      case (Some out)
      from process_instance_delivered [OF Inr False Some] obtain put opened written where
        d: "process_instance a world i st = delivered a i r out put opened written st"
        by blast
      show ?thesis
        unfolding d events_delivered Inr by (simp add: fetch_events_def)
    qed
  qed
qed

lemma for_instances_begins:
  "\<exists>new. events (final (for_instances a world (j # js) st)) =
      events st @ log_events a INFO (''Retrieving console log for instance '' @ j)
      @ GetConsoleOutput j (fetched a world j st) # new"
proof -
  obtain n1 where n1: "events (final (process_instance a world j st)) =
      events st @ log_events a INFO (''Retrieving console log for instance '' @ j)
      @ GetConsoleOutput j (fetched a world j st) # n1"
    using process_instance_begins by blast
  show ?thesis
  proof (cases "process_instance a world j st")
    case (Inl c)
    obtain e s' where c: "c = (e, s')"
      by (cases c)
    have "for_instances a world (j # js) st = Inl (e, s')"
      using Inl c by simp
    then show ?thesis
      using n1 unfolding Inl c by (simp add: final_simps)
  next
    case (Inr s1)
    obtain n2 where n2: "events (final (for_instances a world js s1)) = events s1 @ n2"
      using for_instances_fetches [of a world js s1] by (elim exE conjE) (rule that; assumption)
    have "for_instances a world (j # js) st = for_instances a world js s1"
      using Inr by simp
    then show ?thesis
      using n1 n2 unfolding Inr by (simp add: final_simps)
  qed
qed

section \<open>A failed console fetch\<close>

text \<open>
  Claim C6. When the console fetch of an instance raises \<open>e\<close>, the error is logged with
  the id of that instance and the loop body ends normally in \<open>st'\<close>: \<open>last_update\<close> and the
  files are as they were and nothing was handed to any sink. The loops go on from \<open>st'\<close>: the
  console of the next instance is fetched there, and the instances that follow, in the same
  reservation and in the later ones, are fetched in order, all of them unless a file failure
  ends the process on the way.
\<close>

theorem fetch_failure_skips_instance:
  fixes a :: args and world :: env and i e :: string and st st' :: state
  defines "st' \<equiv> st\<lparr>events := events st
      @ log_events a INFO (''Retrieving console log for instance '' @ i)
      @ [GetConsoleOutput i (Inl e),
         Log ERROR (''Cannot retrieve log for instance '' @ i @ '':'' @ e)]\<rparr>"
  assumes "fetched a world i st = Inl e"
  shows "process_instance a world i st = Inr st'
       \<and> last_update st' = last_update st \<and> files st' = files st
       \<and> filter is_delivery (since st st') = []
       \<and> for_instances a world (i # rest) st = for_instances a world rest st'
       \<and> for_reservations a world ((i # rest) # others) st
           = for_reservations a world (rest # others) st'
       \<and> (\<forall>j js. \<exists>new.
             events (final (for_instances a world (i # j # js) st)) =
               events st' @ log_events a INFO (''Retrieving console log for instance '' @ j)
               @ GetConsoleOutput j (fetched a world j st') # new)
       \<and> (\<exists>k. fetched_ids (since st (final (for_instances a world (i # rest) st)))
                 = i # take k rest
              \<and> (rest \<noteq> [] \<longrightarrow> 0 < k)
              \<and> (crashed (for_instances a world (i # rest) st) = None \<longrightarrow> k = length rest))
       \<and> (\<exists>k. fetched_ids
                 (since st (final (for_reservations a world ((i # rest) # others) st)))
                 = i # take k (rest @ concat others)
              \<and> (rest @ concat others \<noteq> [] \<longrightarrow> 0 < k)
              \<and> (crashed (for_reservations a world ((i # rest) # others) st) = None
                   \<longrightarrow> k = length (rest @ concat others)))"
proof -
  have pi: "process_instance a world i st = Inr st'"
    unfolding st'_def by (rule process_instance_fetch_failed [OF assms(2)])
  have ev: "events st' = events st
      @ (log_events a INFO (''Retrieving console log for instance '' @ i)
      @ [GetConsoleOutput i (Inl e),
         Log ERROR (''Cannot retrieve log for instance '' @ i @ '':'' @ e)])"
    by (simp add: st'_def)
  have ids: "fetched_ids (log_events a INFO (''Retrieving console log for instance '' @ i)
      @ [GetConsoleOutput i (Inl e),
         Log ERROR (''Cannot retrieve log for instance '' @ i @ '':'' @ e)]) = [i]"
    by (simp add: fetched_ids_append fetched_ids_log_events fetched_ids_simps)
  have frame: "last_update st' = last_update st" "files st' = files st"
    by (simp_all add: st'_def)
  have quiet: "filter is_delivery (since st st') = []"
    unfolding since_append [OF ev] by (simp add: deliveries_log_events)
  have fi: "for_instances a world (i # rest) st = for_instances a world rest st'" for rest
    using pi by simp
  have fr: "for_reservations a world ((i # rest) # others) st
      = for_reservations a world (rest # others) st'"
    using pi by simp
  have nxt: "\<exists>new. events (final (for_instances a world (i # j # js) st)) =
      events st' @ log_events a INFO (''Retrieving console log for instance '' @ j)
      @ GetConsoleOutput j (fetched a world j st') # new" for j js
    unfolding fi by (rule for_instances_begins)
  from for_instances_fetches [of a world rest st'] obtain n1 k1 where n1:
    "events (final (for_instances a world rest st')) = events st' @ n1"
    "fetched_ids n1 = take k1 rest" "rest \<noteq> [] \<longrightarrow> 0 < k1"
    "crashed (for_instances a world rest st') = None \<longrightarrow> k1 = length rest"
    by (elim exE conjE) (rule that; assumption)
  have "events (final (for_instances a world (i # rest) st)) = events st
      @ (log_events a INFO (''Retrieving console log for instance '' @ i)
      @ [GetConsoleOutput i (Inl e),
         Log ERROR (''Cannot retrieve log for instance '' @ i @ '':'' @ e)]) @ n1"
    unfolding fi n1(1) ev by simp
  from since_append [OF this]
  have "fetched_ids (since st (final (for_instances a world (i # rest) st))) = i # take k1 rest"
    using ids n1(2) by (simp only: fetched_ids_append) simp
  then have a1: "\<exists>k. fetched_ids (since st (final (for_instances a world (i # rest) st)))
                 = i # take k rest
              \<and> (rest \<noteq> [] \<longrightarrow> 0 < k)
              \<and> (crashed (for_instances a world (i # rest) st) = None \<longrightarrow> k = length rest)"
    using n1(3,4) unfolding fi by (intro exI [of _ k1]) simp
  from for_reservations_fetches [of a world "rest # others" st'] obtain n2 k2 where n2:
    "events (final (for_reservations a world (rest # others) st')) = events st' @ n2"
    "fetched_ids n2 = take k2 (concat (rest # others))"
    "concat (rest # others) \<noteq> [] \<longrightarrow> 0 < k2"
    "crashed (for_reservations a world (rest # others) st') = None
       \<longrightarrow> k2 = length (concat (rest # others))"
    by (elim exE conjE) (rule that; assumption)
  have "events (final (for_reservations a world ((i # rest) # others) st)) = events st
      @ (log_events a INFO (''Retrieving console log for instance '' @ i)
      @ [GetConsoleOutput i (Inl e),
         Log ERROR (''Cannot retrieve log for instance '' @ i @ '':'' @ e)]) @ n2"
    unfolding fr n2(1) ev by simp
  from since_append [OF this]
  have "fetched_ids (since st (final (for_reservations a world ((i # rest) # others) st)))
      = i # take k2 (rest @ concat others)"
    using ids n2(2) by (simp only: fetched_ids_append) simp
  then have a2: "\<exists>k. fetched_ids
                 (since st (final (for_reservations a world ((i # rest) # others) st)))
                 = i # take k (rest @ concat others)
              \<and> (rest @ concat others \<noteq> [] \<longrightarrow> 0 < k)
              \<and> (crashed (for_reservations a world ((i # rest) # others) st) = None
                   \<longrightarrow> k = length (rest @ concat others))"
    using n2(3,4) unfolding fr by (intro exI [of _ k2]) simp
  show ?thesis
    using pi frame quiet fi fr nxt a1 a2 by (intro conjI allI) 
qed

lemma flaky_loops:
  "for_reservations (cmdline 60 False False) flaky [[''i-001'', ''i-002''], [''i-003'']]
     (listing_done (cmdline 60 False False) flaky (startup no_files))
   = Inr \<lparr>last_update = [''i-002'' \<mapsto> T1, ''i-003'' \<mapsto> T1],
          events =
            [Log INFO ''Retrieving instances'',
             DescribeInstances ''monitor'' (Inr [[''i-001'', ''i-002''], [''i-003'']]),
             Log INFO ''Retrieving console log for instance i-001'',
             GetConsoleOutput ''i-001'' (Inl ''timed out''),
             Log ERROR ''Cannot retrieve log for instance i-001:timed out'',
             Log INFO ''Retrieving console log for instance i-002'',
             GetConsoleOutput ''i-002'' (Inr log_A),
             Log INFO ''Console updated 2024-03-05 07:08:09+00:00'',
             Log INFO ''Writing key i-002/2024-03-05 07:08:09+00:00 to S3 bucket console-logs'',
             PutObject ''console-logs'' ''i-002/2024-03-05 07:08:09+00:00'' ''panic log A'' None,
             Log INFO ''Retrieving console log for instance i-003'',
             GetConsoleOutput ''i-003'' (Inr log_A),
             Log INFO ''Console updated 2024-03-05 07:08:09+00:00'',
             Log INFO ''Writing key i-003/2024-03-05 07:08:09+00:00 to S3 bucket console-logs'',
             PutObject ''console-logs'' ''i-003/2024-03-05 07:08:09+00:00'' ''panic log A'' None],
          files = no_files\<rparr>"
  by (simp add: listed_def listing_done_def flaky_def cmdline_def
      logging_events log_events_def levelno_def loglevel_def emit_def startup_def
      process_instance_def fetched_def no_updates_def Let_def out_to_s3_def
      log_A_def str_datetime_T1)

theorem fetch_failure_skips_instance_witness:
  "fetched (cmdline 60 False False) flaky ''i-001''
      (listing_done (cmdline 60 False False) flaky (startup no_files)) = Inl ''timed out''
   \<and> crashed (for_reservations (cmdline 60 False False) flaky [[''i-001'', ''i-002''], [''i-003'']]
        (listing_done (cmdline 60 False False) flaky (startup no_files))) = None
   \<and> fetched_ids (since (listing_done (cmdline 60 False False) flaky (startup no_files))
        (final (for_reservations (cmdline 60 False False) flaky
           [[''i-001'', ''i-002''], [''i-003'']]
           (listing_done (cmdline 60 False False) flaky (startup no_files)))))
     = [''i-001'', ''i-002'', ''i-003'']
   \<and> filter is_put (events (final (for_reservations (cmdline 60 False False) flaky
           [[''i-001'', ''i-002''], [''i-003'']]
           (listing_done (cmdline 60 False False) flaky (startup no_files)))))
     = [PutObject ''console-logs'' ''i-002/2024-03-05 07:08:09+00:00'' ''panic log A'' None,
        PutObject ''console-logs'' ''i-003/2024-03-05 07:08:09+00:00'' ''panic log A'' None]
   \<and> last_update (final (for_reservations (cmdline 60 False False) flaky
           [[''i-001'', ''i-002''], [''i-003'']]
           (listing_done (cmdline 60 False False) flaky (startup no_files)))) ''i-001'' = None"
proof -
  let ?a = "cmdline 60 False False"
  let ?st = "listing_done ?a flaky (startup no_files)"
  have h: "fetched ?a flaky ''i-001'' ?st = Inl ''timed out''"
    by (simp add: fetched_def flaky_def)
  have c: "crashed (for_reservations ?a flaky [[''i-001'', ''i-002''], [''i-003'']] ?st) = None"
    unfolding flaky_loops by (simp add: crashed_simps)
  from fetch_failure_skips_instance [OF h, of "[''i-002'']" "[[''i-003'']]"]
  obtain k where
    "fetched_ids (since ?st (final (for_reservations ?a flaky
        ((''i-001'' # [''i-002'']) # [[''i-003'']]) ?st)))
      = ''i-001'' # take k ([''i-002''] @ concat [[''i-003'']])"
    "crashed (for_reservations ?a flaky ((''i-001'' # [''i-002'']) # [[''i-003'']]) ?st) = None
       \<longrightarrow> k = length ([''i-002''] @ concat [[''i-003'']])"
    by (elim exE conjE) (rule that; assumption)
  with c have ids: "fetched_ids (since ?st (final (for_reservations ?a flaky
        [[''i-001'', ''i-002''], [''i-003'']] ?st))) = [''i-001'', ''i-002'', ''i-003'']"
    by simp
  have puts: "filter is_put (events (final (for_reservations ?a flaky
        [[''i-001'', ''i-002''], [''i-003'']] ?st)))
     = [PutObject ''console-logs'' ''i-002/2024-03-05 07:08:09+00:00'' ''panic log A'' None,
        PutObject ''console-logs'' ''i-003/2024-03-05 07:08:09+00:00'' ''panic log A'' None]"
    unfolding flaky_loops final_simps by simp
  have lu: "last_update (final (for_reservations ?a flaky
        [[''i-001'', ''i-002''], [''i-003'']] ?st)) ''i-001'' = None"
    unfolding flaky_loops final_simps by simp
  show ?thesis
    using h c ids puts lu by (intro conjI)
qed

section \<open>A failed enumeration\<close>


lemma sleep_cases:
  "sleep secs st =
     (case sleep_error secs of Some x \<Rightarrow> Inl (x, st) | None \<Rightarrow> Inr (emit (Sleep secs) st))"
  by (simp add: sleep_def)






end
